theory Spec2Isabelle
  imports Main
begin

section \<open>Python strings\<close>

text \<open>
  Python strings are modelled as \<^typ>\<open>string\<close>; the characters are code points below 256.
  \<open>py_split c s\<close> is \<^verbatim>\<open>s.split(c)\<close> for a one-character separator, \<open>py_split1 c s\<close> is
  \<^verbatim>\<open>s.split(c, 1)\<close>: at most one split, at the first occurrence of the separator.
\<close>

fun py_split :: "char \<Rightarrow> string \<Rightarrow> string list" where
  "py_split c [] = [[]]"
| "py_split c (x # xs) =
     (if x = c then [] # py_split c xs
      else (case py_split c xs of [] \<Rightarrow> [[x]] | h # t \<Rightarrow> (x # h) # t))"

definition py_split1 :: "char \<Rightarrow> string \<Rightarrow> string list" where
  "py_split1 c s =
     (let h = takeWhile (\<lambda>x. x \<noteq> c) s; r = dropWhile (\<lambda>x. x \<noteq> c) s
      in if r = [] then [h] else [h, tl r])"

section \<open>split_scmurl and split_module\<close>

text \<open>
  The dictionary returned by \<^verbatim>\<open>split_scmurl\<close> has the four fixed keys
  \<^verbatim>\<open>link\<close>, \<^verbatim>\<open>ref\<close>, \<^verbatim>\<open>ns\<close> and \<^verbatim>\<open>comp\<close>; Python's \<^verbatim>\<open>None\<close> is \<^const>\<open>None\<close>.
  \<^verbatim>\<open>nscomp[-2]\<close> and \<^verbatim>\<open>nscomp[-1]\<close> are read only under the length guards of the source.
\<close>

record scm =
  scm_link :: string
  scm_ref :: "string option"
  scm_ns :: "string option"
  scm_comp :: "string option"

definition split_scmurl :: "string \<Rightarrow> scm" where
  "split_scmurl scmurl =
     (let scm = py_split1 (CHR ''#'') scmurl;
          nscomp = py_split (CHR ''/'') (hd scm)
      in \<lparr> scm_link = hd scm,
           scm_ref = (if length scm \<ge> 2 then Some (scm ! 1) else None),
           scm_ns = (if length nscomp \<ge> 2 then Some (nscomp ! (length nscomp - 2)) else None),
           scm_comp = (if nscomp \<noteq> [] then Some (last nscomp) else None) \<rparr>)"

text \<open>
  The source serialises a link and an optional ref in \<^verbatim>\<open>sync_module_components\<close>:
  \<^verbatim>\<open>"{}#{}".format(crepo, cref)\<close> when the ref is not \<^verbatim>\<open>None\<close>, and the bare link otherwise.
\<close>

definition format_scmurl :: "string \<Rightarrow> string option \<Rightarrow> string" where
  "format_scmurl crepo cref =
     (case cref of Some r \<Rightarrow> crepo @ ''#'' @ r | None \<Rightarrow> crepo)"

record modcoord =
  mname :: string
  mstream :: string

definition split_module :: "string \<Rightarrow> modcoord" where
  "split_module compn =
     (let ms = py_split (CHR '':'') compn
      in \<lparr> mname = hd ms,
           mstream = (if length ms > 1 \<and> ms ! 1 \<noteq> [] then ms ! 1 else ''master'') \<rparr>)"

section \<open>parse_sources\<close>

text \<open>
  \<^verbatim>\<open>str.rstrip()\<close> removes the trailing characters for which \<^verbatim>\<open>str.isspace\<close> holds; below
  code point 256 these are the twelve listed here.
\<close>

definition py_isspace :: "char \<Rightarrow> bool" where
  "py_isspace c \<longleftrightarrow>
     c \<in> set [CHR 0x09, CHR 0x0A, CHR 0x0B, CHR 0x0C, CHR 0x0D, CHR 0x1C, CHR 0x1D,
              CHR 0x1E, CHR 0x1F, CHR 0x20, CHR 0x85, CHR 0xA0]"

definition py_rstrip :: "string \<Rightarrow> string" where
  "py_rstrip s = rev (dropWhile py_isspace (rev s))"

text \<open>
  The sources file is opened in text mode and iterated line by line. Text mode with
  universal newlines turns \<open>CR LF\<close> and a lone \<open>CR\<close> into \<open>LF\<close>; the iteration yields every
  line with its terminating \<open>LF\<close>, and a last line without one when the text does not end
  in \<open>LF\<close>.
\<close>

fun universal_newlines :: "string \<Rightarrow> string" where
  "universal_newlines [] = []"
| "universal_newlines [c] = [if c = CHR 0x0D then CHR 0x0A else c]"
| "universal_newlines (c # d # cs) =
     (if c = CHR 0x0D
      then (if d = CHR 0x0A then CHR 0x0A # universal_newlines cs
            else CHR 0x0A # universal_newlines (d # cs))
      else c # universal_newlines (d # cs))"

fun py_lines :: "string \<Rightarrow> string list" where
  "py_lines [] = []"
| "py_lines (c # cs) =
     (if c = CHR 0x0A then [c] # py_lines cs
      else (case py_lines cs of [] \<Rightarrow> [[c]] | l # ls \<Rightarrow> (c # l) # ls))"

text \<open>
  The regular expression \<^verbatim>\<open>sre\<close> is
  \<^verbatim>\<open>^(?>(?P<hash>[a-f0-9]{32})  (?P<file>.+)|SHA512 \((?P<file>.+)\) = (?<hash>[a-f0-9]{128}))$\<close>.
  It is run as a backtracking matcher runs it. \<open>sre_class\<close> is \<^verbatim>\<open>[a-f0-9]\<close> and \<open>sre_dot\<close>
  is \<^verbatim>\<open>.\<close>, which matches everything but \<open>LF\<close>. Each alternative returns the file, the hash
  and the input left after it.

  First alternative: 32 class characters, two spaces, then the greedy \<^verbatim>\<open>.+\<close>, which takes the
  longest run of \<open>sre_dot\<close> characters and needs one at least. Nothing follows it inside the
  group, so it gives nothing back there, and the atomic group \<^verbatim>\<open>(?>...)\<close> forbids giving
  back afterwards.

  Second alternative: the literal \<^verbatim>\<open>SHA512 (\<close>, then the greedy \<^verbatim>\<open>.+\<close>, which tries the
  longest run first and gives back one character at a time (\<open>sre_sha512_try\<close> counts the
  length down to 1) until the literal \<^verbatim>\<open>) = \<close> and 128 class characters follow.

  The atomic group commits to the first alternative that matches and to the first way it
  matched. \<^verbatim>\<open>$\<close> then holds at the end of the input or before a final \<open>LF\<close>.
\<close>

definition sre_class :: "char \<Rightarrow> bool" where
  "sre_class c \<longleftrightarrow> c \<in> set ''abcdef0123456789''"

definition sre_dot :: "char \<Rightarrow> bool" where
  "sre_dot c \<longleftrightarrow> c \<noteq> CHR 0x0A"

definition sre_md5 :: "string \<Rightarrow> (string \<times> string \<times> string) option" where
  "sre_md5 s =
     (let h = take 32 s; r = drop 32 s
      in if length h = 32 \<and> list_all sre_class h \<and> take 2 r = ''  ''
         then (let f = takeWhile sre_dot (drop 2 r)
               in if f \<noteq> [] then Some (f, h, dropWhile sre_dot (drop 2 r)) else None)
         else None)"

fun sre_sha512_try :: "string \<Rightarrow> nat \<Rightarrow> (string \<times> string \<times> string) option" where
  "sre_sha512_try r 0 = None"
| "sre_sha512_try r (Suc n) =
     (let h = take 128 (drop (Suc n + 4) r)
      in if take 4 (drop (Suc n) r) = '') = '' \<and> length h = 128 \<and> list_all sre_class h
         then Some (take (Suc n) r, h, drop (Suc n + 4 + 128) r)
         else sre_sha512_try r n)"

definition sre_sha512 :: "string \<Rightarrow> (string \<times> string \<times> string) option" where
  "sre_sha512 s =
     (if take 8 s = ''SHA512 (''
      then sre_sha512_try (drop 8 s) (length (takeWhile sre_dot (drop 8 s)))
      else None)"

definition sre_match :: "string \<Rightarrow> (string \<times> string) option" where
  "sre_match s =
     (case (case sre_md5 s of Some m \<Rightarrow> Some m | None \<Rightarrow> sre_sha512 s) of
        None \<Rightarrow> None
      | Some (f, h, rest) \<Rightarrow> if rest = [] \<or> rest = [CHR 0x0A] then Some (f, h) else None)"

text \<open>
  \<open>parse_sources\<close> takes what the file system holds at the path: no regular file, a file
  whose opening or reading raises (the \<^verbatim>\<open>except Exception\<close> branch), or a file with its
  text. The component and the namespace are used in log messages only and are left out.
  The result is \<^const>\<open>None\<close> for Python's \<^verbatim>\<open>None\<close>, and the set \<^verbatim>\<open>src\<close> otherwise.
\<close>

datatype sources_file = NoFile | Unreadable | Content string

type_synonym source_entry = "string \<times> string \<times> string"

fun parse_lines :: "string list \<Rightarrow> source_entry set \<Rightarrow> source_entry set option" where
  "parse_lines [] src = Some src"
| "parse_lines (line # fh) src =
     (case sre_match (py_rstrip line) of
        None \<Rightarrow> None
      | Some (f, h) \<Rightarrow>
          parse_lines fh (insert (f, h, if length h = 128 then ''sha512'' else ''md5'') src))"

definition parse_sources :: "sources_file \<Rightarrow> source_entry set option" where
  "parse_sources sources =
     (case sources of
        NoFile \<Rightarrow> Some {}
      | Unreadable \<Rightarrow> None
      | Content text \<Rightarrow> parse_lines (py_lines (universal_newlines text)) {})"

text \<open>
  The two line formats in the words of the specification: \<^verbatim>\<open><md5>  <file>\<close> with a hash of
  32 hexadecimal characters, and \<^verbatim>\<open>SHA512 (<file>) = <hex128>\<close> with one of 128.
\<close>

definition spec_md5_line :: "string \<Rightarrow> string \<Rightarrow> string \<Rightarrow> bool" where
  "spec_md5_line s f h \<longleftrightarrow>
     s = h @ ''  '' @ f \<and> length h = 32 \<and> list_all sre_class h \<and> f \<noteq> []"

definition spec_sha512_line :: "string \<Rightarrow> string \<Rightarrow> string \<Rightarrow> bool" where
  "spec_sha512_line s f h \<longleftrightarrow>
     s = ''SHA512 ('' @ f @ '') = '' @ h \<and> length h = 128 \<and> list_all sre_class h \<and> f \<noteq> []"

definition spec_entry_line :: "string \<Rightarrow> string \<Rightarrow> string \<Rightarrow> bool" where
  "spec_entry_line s f h \<longleftrightarrow> spec_md5_line s f h \<or> spec_sha512_line s f h"

section \<open>Python values\<close>

text \<open>
  What \<^verbatim>\<open>yaml.safe_load\<close> and the build system return is dynamically typed. \<open>pyval\<close> holds
  the values the code meets here: \<^verbatim>\<open>None\<close>, booleans, integers, strings, lists, and
  dictionaries with string keys (an association list in insertion order, read with
  \<^const>\<open>map_of\<close>). Floats, timestamps and mappings keyed by other values are outside
  the model.
\<close>

datatype pyval =
    PNone
  | PBool bool
  | PInt int
  | PStr string
  | PList "pyval list"
  | PDict "(string \<times> pyval) list"

text \<open>
  The exceptions the modelled code can raise. \<open>NotModelled\<close> stands for an operation that
  is outside the model (a \<^verbatim>\<open>%\<close> conversion other than \<^verbatim>\<open>%(key)s\<close> and \<^verbatim>\<open>%%\<close>);
  \<open>RemoteError\<close> is any exception of a call to git, the lookaside cache, the build system
  or the file system.
\<close>

datatype exn = KeyError | TypeError | ValueError | AttributeError | IndexError
  | RemoteError | NotModelled

fun py_contains :: "string \<Rightarrow> string \<Rightarrow> bool" where
  "py_contains k [] = (k = [])"
| "py_contains k (c # cs) = (take (length k) (c # cs) = k \<or> py_contains k cs)"

text \<open>
  \<^verbatim>\<open>k in v\<close> for a string \<open>k\<close>: a key of a dictionary, a substring of a string, an element
  of a list; the other values are not iterable. \<^verbatim>\<open>v[k]\<close> for a string \<open>k\<close> reads a
  dictionary and raises on everything else.
\<close>

fun py_in :: "string \<Rightarrow> pyval \<Rightarrow> exn + bool" where
  "py_in k (PDict d) = Inr (map_of d k \<noteq> None)"
| "py_in k (PStr s) = Inr (py_contains k s)"
| "py_in k (PList xs) = Inr (PStr k \<in> set xs)"
| "py_in k _ = Inl TypeError"

fun py_getitem :: "pyval \<Rightarrow> string \<Rightarrow> exn + pyval" where
  "py_getitem (PDict d) k = (case map_of d k of None \<Rightarrow> Inl KeyError | Some v \<Rightarrow> Inr v)"
| "py_getitem _ k = Inl TypeError"

fun py_bool :: "pyval \<Rightarrow> bool" where
  "py_bool PNone = False"
| "py_bool (PBool b) = b"
| "py_bool (PInt i) = (i \<noteq> 0)"
| "py_bool (PStr s) = (s \<noteq> [])"
| "py_bool (PList xs) = (xs \<noteq> [])"
| "py_bool (PDict d) = (d \<noteq> [])"

fun is_dict :: "pyval \<Rightarrow> bool" where
  "is_dict (PDict d) = True"
| "is_dict _ = False"

text \<open>\<^verbatim>\<open>str()\<close> and \<^verbatim>\<open>repr()\<close>, for code points below 256.\<close>

definition digit_char :: "nat \<Rightarrow> char" where
  "digit_char d = ''0123456789abcdef'' ! d"

fun nat_digits :: "nat \<Rightarrow> string" where
  "nat_digits n = (if n < 10 then [digit_char n] else nat_digits (n div 10) @ [digit_char (n mod 10)])"

definition int_str :: "int \<Rightarrow> string" where
  "int_str i = (if i < 0 then ''-'' @ nat_digits (nat (- i)) else nat_digits (nat i))"

definition py_printable :: "char \<Rightarrow> bool" where
  "py_printable c \<longleftrightarrow>
     (let n = (of_char c :: nat)
      in (32 \<le> n \<and> n < 127) \<or> (161 \<le> n \<and> n \<noteq> 173))"

definition repr_char :: "char \<Rightarrow> char \<Rightarrow> string" where
  "repr_char q c =
     (if c = CHR 0x5C then [CHR 0x5C, CHR 0x5C]
      else if c = CHR 0x0A then [CHR 0x5C, CHR ''n'']
      else if c = CHR 0x0D then [CHR 0x5C, CHR ''r'']
      else if c = CHR 0x09 then [CHR 0x5C, CHR ''t'']
      else if c = q then [CHR 0x5C, q]
      else if py_printable c then [c]
      else [CHR 0x5C, CHR ''x'', digit_char ((of_char c :: nat) div 16),
            digit_char ((of_char c :: nat) mod 16)])"

definition repr_str :: "string \<Rightarrow> string" where
  "repr_str s =
     (let q = (if CHR 0x27 \<in> set s \<and> CHR 0x22 \<notin> set s then CHR 0x22 else CHR 0x27)
      in [q] @ concat (map (repr_char q) s) @ [q])"

fun join_with :: "string \<Rightarrow> string list \<Rightarrow> string" where
  "join_with sep [] = []"
| "join_with sep [x] = x"
| "join_with sep (x # y # ys) = x @ sep @ join_with sep (y # ys)"

fun py_repr :: "pyval \<Rightarrow> string" where
  "py_repr PNone = ''None''"
| "py_repr (PBool b) = (if b then ''True'' else ''False'')"
| "py_repr (PInt i) = int_str i"
| "py_repr (PStr s) = repr_str s"
| "py_repr (PList xs) = ''['' @ join_with '', '' (map py_repr xs) @ '']''"
| "py_repr (PDict d) =
     ''{'' @ join_with '', '' (map (\<lambda>kv. repr_str (fst kv) @ '': '' @ py_repr (snd kv)) d) @ ''}''"

fun py_str :: "pyval \<Rightarrow> string" where
  "py_str (PStr s) = s"
| "py_str v = py_repr v"

text \<open>
  \<^verbatim>\<open>template % mapping\<close> for a string template and a dictionary of strings. The scan copies
  characters up to a \<^verbatim>\<open>%\<close>. \<^verbatim>\<open>%%\<close> gives \<^verbatim>\<open>%\<close>. \<^verbatim>\<open>%(key)\<close> reads the key up to the
  parenthesis that closes it (parentheses inside the key nest), and looks it up at once: a
  missing key raises \<^verbatim>\<open>KeyError\<close>. The conversion \<^verbatim>\<open>s\<close> then inserts the value. A template
  that ends after \<^verbatim>\<open>%\<close> or inside a key raises \<^verbatim>\<open>ValueError\<close>.
\<close>

fun format_key :: "nat \<Rightarrow> string \<Rightarrow> string \<Rightarrow> (string \<times> string) option" where
  "format_key depth acc [] = None"
| "format_key depth acc (c # cs) =
     (if c = CHR '')'' then
        (case depth of 0 \<Rightarrow> Some (acc, cs) | Suc d \<Rightarrow> format_key d (acc @ [c]) cs)
      else if c = CHR ''('' then format_key (Suc depth) (acc @ [c]) cs
      else format_key depth (acc @ [c]) cs)"

lemma format_key_shorter: "format_key depth acc s = Some (k, r) \<Longrightarrow> length r < length s"
  by (induction depth acc s rule: format_key.induct) (auto split: if_splits nat.splits)

function py_format :: "string \<Rightarrow> (string \<times> string) list \<Rightarrow> exn + string" where
  "py_format [] m = Inr []"
| "py_format (c # cs) m =
     (if c \<noteq> CHR ''%'' then
        (case py_format cs m of Inl e \<Rightarrow> Inl e | Inr r \<Rightarrow> Inr (c # r))
      else
        (case cs of
           [] \<Rightarrow> Inl ValueError
         | d # ds \<Rightarrow>
             if d = CHR ''%'' then
               (case py_format ds m of Inl e \<Rightarrow> Inl e | Inr r \<Rightarrow> Inr (CHR ''%'' # r))
             else if d = CHR ''('' then
               (case format_key 0 [] ds of
                  None \<Rightarrow> Inl ValueError
                | Some (k, rest) \<Rightarrow>
                    (case map_of m k of
                       None \<Rightarrow> Inl KeyError
                     | Some v \<Rightarrow>
                         (case rest of
                            [] \<Rightarrow> Inl ValueError
                          | t # ts \<Rightarrow>
                              if t = CHR ''s'' then
                                (case py_format ts m of Inl e \<Rightarrow> Inl e | Inr r \<Rightarrow> Inr (v @ r))
                              else Inl NotModelled)))
             else Inl NotModelled))"
  by pat_completeness auto
termination
proof (relation "measure (\<lambda>(s, m). length s)", goal_cases)
  case 1
  then show ?case by simp
next
  case (2 c cs m)
  then show ?case by simp
next
  case (3 c cs m d ds)
  then show ?case by simp
next
  case (4 c cs m d ds x k rest v t ts)
  then show ?case
    using format_key_shorter [of 0 "[]" ds k "t # ts"] by simp
qed

section \<open>The configuration\<close>

text \<open>
  The global configuration \<^verbatim>\<open>c\<close> is empty until a load succeeds, and holds \<^verbatim>\<open>c["main"]\<close>
  and \<^verbatim>\<open>c["comps"]\<close> afterwards: \<open>config option\<close>. The dictionaries that \<open>load_config\<close>
  builds have fixed keys and are records. A key that the loader can leave out of a
  dictionary it returns is an \<open>option\<close> field, and reading it when it is \<^const>\<open>None\<close> is the
  \<^verbatim>\<open>KeyError\<close> of the source. Values that the loader stores without \<^verbatim>\<open>str()\<close> stay
  \<open>pyval\<close>s. The two exclusion sets hold what \<^verbatim>\<open>set.update\<close> put there.
\<close>

record cache_cfg =
  cache_url :: string
  cache_cgi :: string
  cache_path :: string

record endpoint =
  ep_scm :: string
  ep_cache :: cache_cfg
  ep_profile :: string
  ep_mbs :: "(string \<times> pyval) list option"

record trigger_cfg =
  trigger_rpms :: "string option"
  trigger_modules :: "string option"

record build_cfg =
  build_prefix :: string
  build_target :: string
  build_platform :: string
  build_scratch :: bool

record git_cfg =
  git_author :: string
  git_email :: string
  git_message :: string

record control_cfg =
  control_build :: bool
  control_merge :: bool
  control_strict :: bool
  exclude_rpms :: "pyval set"
  exclude_modules :: "pyval set"

record srcdst =
  sd_source :: "string option"
  sd_destination :: "string option"

record pysrcdst =
  psd_source :: pyval
  psd_destination :: pyval

record defaults_cfg =
  defaults_cache :: srcdst
  defaults_rpms :: srcdst
  defaults_modules :: srcdst
  defaults_modules_rpms :: pysrcdst

record main_cfg =
  main_source :: endpoint
  main_destination :: endpoint
  main_trigger :: trigger_cfg
  main_build :: build_cfg
  main_git :: git_cfg
  main_control :: control_cfg
  main_defaults :: defaults_cfg

record comp_cfg =
  comp_source :: string
  comp_destination :: string
  comp_cache_source :: string
  comp_cache_destination :: string
  comp_rpms :: "(string \<times> pysrcdst) list"

record config =
  c_main :: main_cfg
  c_comps_rpms :: "(string \<times> comp_cfg) list"
  c_comps_modules :: "(string \<times> comp_cfg) list"

text \<open>
  A step of the loader yields a value, makes \<open>load_config\<close> return \<^verbatim>\<open>None\<close>, or raises.
\<close>

datatype 'a outcome = Value 'a | ReturnNone | Raise exn

fun obind :: "'a outcome \<Rightarrow> ('a \<Rightarrow> 'b outcome) \<Rightarrow> 'b outcome" where
  "obind (Value x) f = f x"
| "obind ReturnNone f = ReturnNone"
| "obind (Raise e) f = Raise e"

fun olift :: "exn + 'a \<Rightarrow> 'a outcome" where
  "olift (Inl e) = Raise e"
| "olift (Inr x) = Value x"

text \<open>
  \<open>opt_item k v\<close> is the pattern \<^verbatim>\<open>if k in v: ... v[k] ...\<close>; \<open>need k v\<close> is the same with
  \<^verbatim>\<open>else: logger.error(...); return None\<close>.
\<close>

definition opt_item :: "string \<Rightarrow> pyval \<Rightarrow> pyval option outcome" where
  "opt_item k v =
     obind (olift (py_in k v)) (\<lambda>b.
       if b then obind (olift (py_getitem v k)) (\<lambda>x. Value (Some x)) else Value None)"

definition need :: "string \<Rightarrow> pyval \<Rightarrow> pyval outcome" where
  "need k v = obind (opt_item k v) (\<lambda>x. case x of None \<Rightarrow> ReturnNone | Some y \<Rightarrow> Value y)"

definition opt_str :: "string \<Rightarrow> pyval \<Rightarrow> string option outcome" where
  "opt_str k v = obind (opt_item k v) (\<lambda>x. Value (map_option py_str x))"

text \<open>The blocks \<^verbatim>\<open>source\<close> and \<^verbatim>\<open>destination\<close> (the loop over \<^verbatim>\<open>k\<close>).\<close>

definition load_cache :: "pyval \<Rightarrow> cache_cfg outcome" where
  "load_cache cc =
     obind (need ''url'' cc) (\<lambda>u.
     obind (need ''cgi'' cc) (\<lambda>g.
     obind (need ''path'' cc) (\<lambda>p.
       Value \<lparr> cache_url = py_str u, cache_cgi = py_str g, cache_path = py_str p \<rparr>)))"

fun required_mbs :: "string list \<Rightarrow> pyval \<Rightarrow> (string \<times> pyval) list outcome" where
  "required_mbs [] mbs = Value []"
| "required_mbs (r # rs) mbs =
     obind (need r mbs) (\<lambda>v.
     obind (required_mbs rs mbs) (\<lambda>vs. Value ((r, v) # vs)))"

definition load_mbs :: "(string \<Rightarrow> bool) \<Rightarrow> pyval \<Rightarrow> (string \<times> pyval) list outcome" where
  "load_mbs importable mbs =
     (if \<not> is_dict mbs then ReturnNone
      else
        obind (need ''auth_method'' mbs) (\<lambda>am.
          let mbs_auth_method = py_str am;
              mbs_required_configs = [''auth_method'', ''api_url'']
          in if mbs_auth_method = ''oidc'' then
               (if importable ''openidc_client''
                then required_mbs (mbs_required_configs @
                       [''oidc_id_provider'', ''oidc_client_id'', ''oidc_client_secret'',
                        ''oidc_scopes'']) mbs
                else ReturnNone)
             else if mbs_auth_method = ''kerberos'' then
               (if importable ''requests_kerberos''
                then required_mbs mbs_required_configs mbs
                else ReturnNone)
             else ReturnNone))"

definition load_endpoint :: "(string \<Rightarrow> bool) \<Rightarrow> string \<Rightarrow> pyval \<Rightarrow> endpoint outcome" where
  "load_endpoint importable k cnf =
     obind (need k cnf) (\<lambda>ck.
     obind (need ''scm'' ck) (\<lambda>scm.
     obind (need ''cache'' ck) (\<lambda>cc.
     obind (load_cache cc) (\<lambda>cache.
     obind (need ''profile'' ck) (\<lambda>profile.
     obind (opt_item ''mbs'' ck) (\<lambda>mbs.
     obind (case mbs of
              Some m \<Rightarrow>
                if k = ''destination''
                then obind (load_mbs importable m) (\<lambda>x. Value (Some x))
                else Value None
            | None \<Rightarrow> if k = ''destination'' then ReturnNone else Value None) (\<lambda>nmbs.
       Value \<lparr> ep_scm = py_str scm, ep_cache = cache, ep_profile = py_str profile,
               ep_mbs = nmbs \<rparr>)))))))"

text \<open>
  The block \<^verbatim>\<open>trigger\<close>. A missing \<^verbatim>\<open>trigger.rpms\<close> or \<^verbatim>\<open>trigger.modules\<close> is logged as a
  configuration error, and the loader goes on: there is no \<^verbatim>\<open>return None\<close> in that branch.
\<close>

definition load_trigger :: "pyval \<Rightarrow> trigger_cfg outcome" where
  "load_trigger cnf =
     obind (need ''trigger'' cnf) (\<lambda>t.
     obind (opt_str ''rpms'' t) (\<lambda>r.
     obind (opt_str ''modules'' t) (\<lambda>m.
       Value \<lparr> trigger_rpms = r, trigger_modules = m \<rparr>)))"

definition load_build :: "pyval \<Rightarrow> build_cfg outcome" where
  "load_build cnf =
     obind (need ''build'' cnf) (\<lambda>b.
     obind (need ''prefix'' b) (\<lambda>prefix.
     obind (need ''target'' b) (\<lambda>target.
     obind (need ''platform'' b) (\<lambda>platform.
     obind (opt_item ''scratch'' b) (\<lambda>scratch.
       if CHR '':'' \<notin> set (py_str platform) then ReturnNone
       else Value \<lparr> build_prefix = py_str prefix, build_target = py_str target,
                    build_platform = py_str platform,
                    build_scratch = (case scratch of Some x \<Rightarrow> py_bool x | None \<Rightarrow> False) \<rparr>)))))"

definition load_git :: "pyval \<Rightarrow> git_cfg outcome" where
  "load_git cnf =
     obind (need ''git'' cnf) (\<lambda>g.
     obind (need ''author'' g) (\<lambda>author.
     obind (need ''email'' g) (\<lambda>email.
     obind (need ''message'' g) (\<lambda>message.
       Value \<lparr> git_author = py_str author, git_email = py_str email,
               git_message = py_str message \<rparr>))))"

text \<open>
  \<^verbatim>\<open>set.update(x)\<close> adds the elements of a list (which must be hashable), the characters of
  a string or the keys of a dictionary, and raises on a value that is not iterable.
\<close>

fun hashable :: "pyval \<Rightarrow> bool" where
  "hashable (PList xs) = False"
| "hashable (PDict d) = False"
| "hashable _ = True"

fun update_items :: "pyval \<Rightarrow> exn + pyval set" where
  "update_items (PList xs) = (if list_all hashable xs then Inr (set xs) else Inl TypeError)"
| "update_items (PStr s) = Inr ((\<lambda>ch. PStr [ch]) ` set s)"
| "update_items (PDict d) = Inr ((\<lambda>kv. PStr (fst kv)) ` set d)"
| "update_items _ = Inl TypeError"

definition load_exclude :: "string \<Rightarrow> pyval \<Rightarrow> pyval set outcome" where
  "load_exclude cns ex =
     obind (opt_item cns ex) (\<lambda>x.
       case x of None \<Rightarrow> Value {} | Some v \<Rightarrow> olift (update_items v))"

definition load_control :: "pyval \<Rightarrow> control_cfg outcome" where
  "load_control cnf =
     obind (need ''control'' cnf) (\<lambda>ct.
     obind (need ''build'' ct) (\<lambda>b.
     obind (need ''merge'' ct) (\<lambda>m.
     obind (need ''strict'' ct) (\<lambda>s.
     obind (opt_item ''exclude'' ct) (\<lambda>ex.
     obind (case ex of None \<Rightarrow> Value {} | Some e \<Rightarrow> load_exclude ''rpms'' e) (\<lambda>xr.
     obind (case ex of None \<Rightarrow> Value {} | Some e \<Rightarrow> load_exclude ''modules'' e) (\<lambda>xm.
       Value \<lparr> control_build = py_bool b, control_merge = py_bool m,
               control_strict = py_bool s, exclude_rpms = xr, exclude_modules = xm \<rparr>)))))))"

text \<open>
  The block \<^verbatim>\<open>defaults\<close>. Each of \<^verbatim>\<open>cache\<close>, \<^verbatim>\<open>rpms\<close> and \<^verbatim>\<open>modules\<close> must be there; a
  missing \<^verbatim>\<open>source\<close> or \<^verbatim>\<open>destination\<close> inside one of them is logged as a configuration
  error without \<^verbatim>\<open>return None\<close>, and the key stays out of the result. The defaults of the
  module sub-components come from \<^verbatim>\<open>defaults.modules.rpms\<close>, stored as they are, or
  from \<^verbatim>\<open>n["defaults"]["rpms"]\<close>, whose missing key raises.
\<close>

definition load_srcdst :: "pyval \<Rightarrow> srcdst outcome" where
  "load_srcdst d =
     obind (opt_str ''source'' d) (\<lambda>s.
     obind (opt_str ''destination'' d) (\<lambda>t.
       Value \<lparr> sd_source = s, sd_destination = t \<rparr>))"

definition load_modules_rpms :: "pyval \<Rightarrow> string option \<Rightarrow> string \<Rightarrow> pyval outcome" where
  "load_modules_rpms dm fallback dkk =
     obind (olift (py_in ''rpms'' dm)) (\<lambda>b.
     obind (if b then obind (olift (py_getitem dm ''rpms'')) (\<lambda>r. opt_item dkk r)
            else Value None) (\<lambda>x.
       case x of
         Some v \<Rightarrow> Value v
       | None \<Rightarrow> (case fallback of None \<Rightarrow> Raise KeyError | Some t \<Rightarrow> Value (PStr t))))"

definition load_defaults :: "pyval \<Rightarrow> defaults_cfg outcome" where
  "load_defaults cnf =
     obind (need ''defaults'' cnf) (\<lambda>d.
     obind (need ''cache'' d) (\<lambda>dc.
     obind (load_srcdst dc) (\<lambda>cache.
     obind (need ''rpms'' d) (\<lambda>dr.
     obind (load_srcdst dr) (\<lambda>rpms.
     obind (need ''modules'' d) (\<lambda>dm.
     obind (load_srcdst dm) (\<lambda>modules.
     obind (load_modules_rpms dm (sd_source rpms) ''source'') (\<lambda>ms.
     obind (load_modules_rpms dm (sd_destination rpms) ''destination'') (\<lambda>md.
       Value \<lparr> defaults_cache = cache, defaults_rpms = rpms, defaults_modules = modules,
               defaults_modules_rpms = \<lparr> psd_source = ms, psd_destination = md \<rparr> \<rparr>)))))))))"

definition load_main :: "(string \<Rightarrow> bool) \<Rightarrow> pyval \<Rightarrow> main_cfg outcome" where
  "load_main importable y =
     obind (need ''configuration'' y) (\<lambda>cnf.
     obind (load_endpoint importable ''source'' cnf) (\<lambda>src.
     obind (load_endpoint importable ''destination'' cnf) (\<lambda>dst.
     obind (load_trigger cnf) (\<lambda>trigger.
     obind (load_build cnf) (\<lambda>build.
     obind (load_git cnf) (\<lambda>git.
     obind (load_control cnf) (\<lambda>control.
     obind (load_defaults cnf) (\<lambda>defaults.
       Value \<lparr> main_source = src, main_destination = dst, main_trigger = trigger,
               main_build = build, main_git = git, main_control = control,
               main_defaults = defaults \<rparr>))))))))"

text \<open>
  The block \<^verbatim>\<open>components\<close>. Every configured component starts from the defaults of its
  namespace, formatted with its name (and stream, for a module), and takes the overrides
  of its entry. Reading \<^verbatim>\<open>n["defaults"][k]["source"]\<close> and its siblings raises when the
  key was left out above.
\<close>

definition fmt_opt :: "string option \<Rightarrow> (string \<times> string) list \<Rightarrow> string outcome" where
  "fmt_opt t m = (case t of None \<Rightarrow> Raise KeyError | Some x \<Rightarrow> olift (py_format x m))"

fun fmt_val :: "pyval \<Rightarrow> (string \<times> string) list \<Rightarrow> string outcome" where
  "fmt_val (PStr x) m = olift (py_format x m)"
| "fmt_val _ m = Raise TypeError"

fun py_items :: "pyval \<Rightarrow> exn + (string \<times> pyval) list" where
  "py_items (PDict d) = Inr d"
| "py_items _ = Inl AttributeError"

definition ns_defaults :: "defaults_cfg \<Rightarrow> string \<Rightarrow> srcdst" where
  "ns_defaults d k = (if k = ''modules'' then defaults_modules d else defaults_rpms d)"

definition load_subcomp ::
  "defaults_cfg \<Rightarrow> string \<Rightarrow> string \<Rightarrow> string \<Rightarrow> pyval \<Rightarrow> pysrcdst outcome" where
  "load_subcomp d cname sname cp e =
     (let m = [(''component'', cp), (''name'', cname), (''ref'', ''%(ref)s''),
               (''stream'', sname)]
      in obind (fmt_val (psd_source (defaults_modules_rpms d)) m) (\<lambda>s0.
         obind (opt_item ''source'' e) (\<lambda>s1.
         obind (fmt_val (psd_destination (defaults_modules_rpms d)) m) (\<lambda>d0.
         obind (opt_item ''destination'' e) (\<lambda>d1.
           Value \<lparr> psd_source = (case s1 of Some v \<Rightarrow> v | None \<Rightarrow> PStr s0),
                   psd_destination = (case d1 of Some v \<Rightarrow> v | None \<Rightarrow> PStr d0) \<rparr>)))))"

fun load_subcomps ::
  "defaults_cfg \<Rightarrow> string \<Rightarrow> string \<Rightarrow> (string \<times> pyval) list
     \<Rightarrow> (string \<times> pysrcdst) list outcome" where
  "load_subcomps d cname sname [] = Value []"
| "load_subcomps d cname sname ((cp, e) # rest) =
     obind (load_subcomp d cname sname cp e) (\<lambda>x.
     obind (load_subcomps d cname sname rest) (\<lambda>xs. Value ((cp, x) # xs)))"

definition load_component :: "defaults_cfg \<Rightarrow> string \<Rightarrow> string \<Rightarrow> pyval \<Rightarrow> comp_cfg outcome" where
  "load_component d k p entry =
     (let cname = (if k = ''modules'' then mname (split_module p) else p);
          sname = (if k = ''modules'' then mstream (split_module p) else []);
          m = [(''component'', cname), (''stream'', sname)]
      in obind (fmt_opt (sd_source (ns_defaults d k)) m) (\<lambda>s0.
         obind (fmt_opt (sd_destination (ns_defaults d k)) m) (\<lambda>d0.
         obind (fmt_opt (sd_source (defaults_cache d)) m) (\<lambda>cs0.
         obind (fmt_opt (sd_destination (defaults_cache d)) m) (\<lambda>cd0.
         (let e = (if entry = PNone then PDict [] else entry)
          in obind (opt_str ''source'' e) (\<lambda>s1.
             obind (opt_str ''destination'' e) (\<lambda>d1.
             obind (opt_item ''cache'' e) (\<lambda>ec.
             obind (case ec of None \<Rightarrow> Value None | Some x \<Rightarrow> opt_str ''source'' x) (\<lambda>cs1.
             obind (case ec of None \<Rightarrow> Value None | Some x \<Rightarrow> opt_str ''destination'' x) (\<lambda>cd1.
             obind (if k = ''modules'' then
                      obind (opt_item ''rpms'' e) (\<lambda>er.
                        case er of
                          None \<Rightarrow> Value []
                        | Some x \<Rightarrow> obind (olift (py_items x)) (load_subcomps d cname sname))
                    else Value []) (\<lambda>subs.
               Value \<lparr> comp_source = (case s1 of Some v \<Rightarrow> v | None \<Rightarrow> s0),
                       comp_destination = (case d1 of Some v \<Rightarrow> v | None \<Rightarrow> d0),
                       comp_cache_source = (case cs1 of Some v \<Rightarrow> v | None \<Rightarrow> cs0),
                       comp_cache_destination = (case cd1 of Some v \<Rightarrow> v | None \<Rightarrow> cd0),
                       comp_rpms = subs \<rparr>))))))))))))"

fun load_components ::
  "defaults_cfg \<Rightarrow> string \<Rightarrow> (string \<times> pyval) list \<Rightarrow> (string \<times> comp_cfg) list outcome" where
  "load_components d k [] = Value []"
| "load_components d k ((p, entry) # rest) =
     obind (load_component d k p entry) (\<lambda>x.
     obind (load_components d k rest) (\<lambda>xs. Value ((p, x) # xs)))"

definition load_namespace ::
  "defaults_cfg \<Rightarrow> string \<Rightarrow> pyval \<Rightarrow> (string \<times> comp_cfg) list outcome" where
  "load_namespace d k cnf =
     obind (opt_item k cnf) (\<lambda>ck.
       case ck of
         None \<Rightarrow> Value []
       | Some x \<Rightarrow> obind (olift (py_items x)) (load_components d k))"

text \<open>
  \<open>build_config\<close> is the loader from \<^verbatim>\<open>n = dict()\<close> to the end: it builds \<^verbatim>\<open>n\<close> and \<^verbatim>\<open>nc\<close>
  and touches nothing else.
\<close>

definition build_config :: "(string \<Rightarrow> bool) \<Rightarrow> pyval \<Rightarrow> config outcome" where
  "build_config importable y =
     obind (load_main importable y) (\<lambda>n.
     obind (opt_item ''components'' y) (\<lambda>yc.
     obind (case yc of None \<Rightarrow> Value []
            | Some cnf \<Rightarrow> load_namespace (main_defaults n) ''rpms'' cnf) (\<lambda>r.
     obind (case yc of None \<Rightarrow> Value []
            | Some cnf \<Rightarrow> load_namespace (main_defaults n) ''modules'' cnf) (\<lambda>m.
       Value \<lparr> c_main = n, c_comps_rpms = r, c_comps_modules = m \<rparr>))))"

text \<open>
  The configuration repository, as \<open>load_config\<close> sees it: whether the temporary directory
  can be made, whether the clone and checkout of a link and ref succeed at a given
  attempt, what \<^verbatim>\<open>distrobaker.yaml\<close> is (missing, unparseable, or a document), and which
  modules can be imported.
\<close>

datatype yaml_file = NoYaml | BadYaml | Yaml pyval

record config_repo =
  repo_tempdir :: bool
  repo_clone :: "string \<Rightarrow> string \<Rightarrow> nat \<Rightarrow> bool"
  repo_yaml :: yaml_file
  repo_importable :: "string \<Rightarrow> bool"

text \<open>
  \<^verbatim>\<open>for attempt in range(retry): try ... except: continue else: break\<close>, with the \<^verbatim>\<open>else\<close> of
  the loop when no attempt succeeded: \<open>attempts f i n\<close> tries \<open>n\<close> times from attempt \<open>i\<close>.
\<close>

fun attempts :: "(nat \<Rightarrow> bool) \<Rightarrow> nat \<Rightarrow> nat \<Rightarrow> bool" where
  "attempts f i 0 = False"
| "attempts f i (Suc n) = (if f i then True else attempts f (Suc i) n)"

text \<open>
  \<open>load_config\<close> takes the retry count, the repository, the URL \<^verbatim>\<open>crepo\<close> and the global
  configuration, and returns its outcome with the global configuration afterwards. The
  only assignment to the global is at the end, \<^verbatim>\<open>c["main"] = n; c["comps"] = nc\<close>.
\<close>

definition load_config ::
  "int \<Rightarrow> config_repo \<Rightarrow> string \<Rightarrow> config option \<Rightarrow> config outcome \<times> config option" where
  "load_config retry repo crepo c =
     (if \<not> repo_tempdir repo then (Raise RemoteError, c)
      else
        let scm = split_scmurl crepo;
            rf = (case scm_ref scm of None \<Rightarrow> ''master'' | Some r \<Rightarrow> r)
        in if \<not> attempts (repo_clone repo (scm_link scm) rf) 0 (nat retry) then (ReturnNone, c)
           else
             (case repo_yaml repo of
                NoYaml \<Rightarrow> (ReturnNone, c)
              | BadYaml \<Rightarrow> (ReturnNone, c)
              | Yaml y \<Rightarrow>
                  (case build_config (repo_importable repo) y of
                     Value n \<Rightarrow> (Value n, Some n)
                   | ReturnNone \<Rightarrow> (ReturnNone, c)
                   | Raise e \<Rightarrow> (Raise e, c))))"

text \<open>
  An example \<^verbatim>\<open>distrobaker.yaml\<close>, as \<^verbatim>\<open>yaml.safe_load\<close> returns it, with the blocks
  \<^verbatim>\<open>trigger\<close> and \<^verbatim>\<open>defaults\<close> left open, and a repository that holds it and is cloned at
  the second attempt.
\<close>

definition example_cache :: "string \<Rightarrow> pyval" where
  "example_cache host =
     PDict [(''url'', PStr (''https://'' @ host @ ''/repo/pkgs'')),
            (''cgi'', PStr (''https://'' @ host @ ''/repo/pkgs/upload.cgi'')),
            (''path'', PStr ''%(name)s/%(filename)s/%(hashtype)s/%(hash)s/%(filename)s'')]"

definition example_document :: "pyval \<Rightarrow> pyval \<Rightarrow> pyval" where
  "example_document trigger defaults =
     PDict [
       (''configuration'', PDict [
          (''source'', PDict [
             (''scm'', PStr ''https://src.example.org''),
             (''cache'', example_cache ''src.example.org''),
             (''profile'', PStr ''koji'')]),
          (''destination'', PDict [
             (''scm'', PStr ''ssh://pkgs.example.com''),
             (''cache'', example_cache ''pkgs.example.com''),
             (''profile'', PStr ''brew''),
             (''mbs'', PDict [
                (''auth_method'', PStr ''kerberos''),
                (''api_url'', PStr ''https://mbs.example.com/module-build-service/1'')])]),
          (''trigger'', trigger),
          (''build'', PDict [
             (''prefix'', PStr ''git+https://pkgs.example.com''),
             (''target'', PStr ''fluff-candidate''),
             (''platform'', PStr ''platform:f33''),
             (''scratch'', PBool False)]),
          (''git'', PDict [
             (''author'', PStr ''DistroBaker''),
             (''email'', PStr ''noreply@example.com''),
             (''message'', PStr ''Merged update from upstream sources'')]),
          (''control'', PDict [
             (''build'', PBool True),
             (''merge'', PBool True),
             (''strict'', PBool False),
             (''exclude'', PDict [(''rpms'', PList [PStr ''firefox'', PStr ''kernel''])])]),
          (''defaults'', defaults)]),
       (''components'', PDict [
          (''rpms'', PDict [
             (''gzip'', PDict [
                (''source'', PStr ''gzip.git''),
                (''destination'', PStr ''gzip.git#fluff-2.0''),
                (''cache'', PDict [(''destination'', PStr ''gzip-fluff'')])]),
             (''ipa'', PNone)]),
          (''modules'', PDict [
             (''testmodule:master'', PDict [
                (''destination'', PStr ''testmodule-fluff.git#stream-fluff''),
                (''rpms'', PDict [
                   (''componentrpm'', PDict [
                      (''source'', PStr ''componentrpm.git''),
                      (''destination'', PStr ''componentrpm-fluff.git#%(ref)s'')])])])])])]"

definition example_trigger :: pyval where
  "example_trigger = PDict [(''rpms'', PStr ''rawhide''), (''modules'', PStr ''rawhide-modular'')]"

definition example_defaults :: pyval where
  "example_defaults =
     PDict [
       (''cache'', PDict [(''source'', PStr ''%(component)s''),
                          (''destination'', PStr ''fluff-%(component)s'')]),
       (''rpms'', PDict [(''source'', PStr ''%(component)s.git''),
                         (''destination'', PStr ''%(component)s.git#fluff'')]),
       (''modules'', PDict [(''source'', PStr ''%(component)s.git#%(stream)s''),
                            (''destination'', PStr ''%(component)s.git#%(stream)s-fluff'')])]"

definition example_repo :: "pyval \<Rightarrow> config_repo" where
  "example_repo y =
     \<lparr> repo_tempdir = True,
       repo_clone = (\<lambda>l r attempt. l = ''https://cfg.example.com/distrobaker.git'' \<and> r = ''master''
                        \<and> attempt = 1),
       repo_yaml = Yaml y,
       repo_importable = (\<lambda>m. True) \<rparr>"

section \<open>The outside world\<close>

text \<open>
  Every call that leaves the process (git, the lookaside caches, the build systems, the
  module build service, the file system, the clock, the random generator) is an \<open>event\<close>,
  with the arguments the code passes. The events of a run, in order, are its trace.
  \<^verbatim>\<open>repo.git.<command>(args)\<close> on the repository in directory \<open>d\<close> is \<open>Git d command args\<close>;
  an argument is \<^const>\<open>None\<close> where the code passes \<^verbatim>\<open>None\<close>.
\<close>

datatype event =
    MkTemp string
  | GitClone string string "string option"
  | Git string string "string option list"
  | ReadSources string
  | RandomName
  | MsgFile string string
  | CacheExists cache_cfg string string string string
  | CacheDownload cache_cfg string string string string string
  | CacheUpload cache_cfg string string string string
  | KojiConnect string string
  | KojiLogout string
  | KojiLogin string
  | KojiGetBuild string pyval
  | KojiListTagged string "string option" "string option" bool
  | KojiBuild string string string bool
  | MbsKerberos string pyval
  | MbsOidc pyval pyval pyval string pyval pyval
  | Now

record http_response =
  status_code :: int
  resp_ok :: bool
  resp_text :: string
  resp_json :: "pyval option"

text \<open>
  A module metadata document, as \<^verbatim>\<open>Modulemd.read_packager_string\<close> returns it: a module
  stream of version 2 with its RPM components (name, repository, cache, ref) and the names
  of its module components, or something else.
\<close>

record rpm_component =
  rc_repository :: "string option"
  rc_cache :: "string option"
  rc_ref :: "string option"

datatype modulemd =
    ModuleStreamV2 "(string \<times> rpm_component) list" "string list"
  | OtherDocument

text \<open>
  The world answers a call knowing the trace so far, so the answer to the same call may
  change from one attempt to the next. A call that returns nothing either returns or raises
  (\<open>ask_unit\<close>); a call with a result returns it or raises (\<^const>\<open>None\<close>). \<open>iter_order\<close> is the
  order in which Python iterates a set, and \<open>read_packager_string\<close> is the metadata parser
  (\<^const>\<open>None\<close> when it raises).
\<close>

record world =
  ask_unit :: "event list \<Rightarrow> event \<Rightarrow> bool"
  ask_str :: "event list \<Rightarrow> event \<Rightarrow> string option"
  ask_val :: "event list \<Rightarrow> event \<Rightarrow> pyval option"
  ask_file :: "event list \<Rightarrow> event \<Rightarrow> sources_file"
  ask_http :: "event list \<Rightarrow> event \<Rightarrow> http_response option"
  ask_time :: "event list \<Rightarrow> int"
  iter_order :: "source_entry set \<Rightarrow> source_entry list"
  read_packager_string :: "string \<Rightarrow> modulemd option"

text \<open>
  The process state that the modelled functions change: the trace, and the sessions that
  \<open>get_buildsys\<close> caches as attributes of itself, with their start times. The globals that
  they only read are \<^verbatim>\<open>c\<close>, \<^verbatim>\<open>retry\<close> and \<^verbatim>\<open>dry_run\<close>.
\<close>

record state =
  trace :: "event list"
  sessions :: "string \<Rightarrow> int option"

record globals =
  g_config :: "config option"
  g_retry :: int
  g_dry_run :: bool

text \<open>
  A function of the program takes the state and returns the new state with its result:
  \<open>Inr\<close> the value it returns, \<open>Inl\<close> the exception that leaves it uncaught.
\<close>

type_synonym 'a prog = "state \<Rightarrow> (exn + 'a) \<times> state"

definition pret :: "'a \<Rightarrow> 'a prog" where
  "pret x s = (Inr x, s)"

definition plift :: "exn + 'a \<Rightarrow> 'a prog" where
  "plift r s = (r, s)"

definition pbind :: "'a prog \<Rightarrow> ('a \<Rightarrow> 'b prog) \<Rightarrow> 'b prog" where
  "pbind m f s = (case m s of (Inl e, s') \<Rightarrow> (Inl e, s') | (Inr x, s') \<Rightarrow> f x s')"

text \<open>\<^verbatim>\<open>try: ... except Exception:\<close> turns every exception of its body into \<^const>\<open>None\<close>.\<close>

definition pcatch :: "'a prog \<Rightarrow> 'a option prog" where
  "pcatch m s = (case m s of (Inl e, s') \<Rightarrow> (Inr None, s') | (Inr x, s') \<Rightarrow> (Inr (Some x), s'))"

definition emit :: "event \<Rightarrow> state \<Rightarrow> state" where
  "emit e s = s\<lparr> trace := trace s @ [e] \<rparr>"

definition call_unit :: "world \<Rightarrow> event \<Rightarrow> unit prog" where
  "call_unit w e s = ((if ask_unit w (trace s) e then Inr () else Inl RemoteError), emit e s)"

definition call_str :: "world \<Rightarrow> event \<Rightarrow> string prog" where
  "call_str w e s =
     ((case ask_str w (trace s) e of None \<Rightarrow> Inl RemoteError | Some x \<Rightarrow> Inr x), emit e s)"

definition call_val :: "world \<Rightarrow> event \<Rightarrow> pyval prog" where
  "call_val w e s =
     ((case ask_val w (trace s) e of None \<Rightarrow> Inl RemoteError | Some x \<Rightarrow> Inr x), emit e s)"

definition call_file :: "world \<Rightarrow> event \<Rightarrow> sources_file prog" where
  "call_file w e s = (Inr (ask_file w (trace s) e), emit e s)"

definition call_http :: "world \<Rightarrow> event \<Rightarrow> http_response prog" where
  "call_http w e s =
     ((case ask_http w (trace s) e of None \<Rightarrow> Inl RemoteError | Some x \<Rightarrow> Inr x), emit e s)"

definition call_time :: "world \<Rightarrow> int prog" where
  "call_time w s = (Inr (ask_time w (trace s)), emit Now s)"

text \<open>
  The retry loop \<^verbatim>\<open>for attempt in range(n): try: body; except Exception: continue; else: break\<close>
  gives the result of the first attempt that does not raise, and \<^const>\<open>None\<close> when the
  \<^verbatim>\<open>else\<close> of the loop is reached.
\<close>

fun retry_loop :: "nat \<Rightarrow> 'a prog \<Rightarrow> 'a option prog" where
  "retry_loop 0 m = pret None"
| "retry_loop (Suc n) m =
     pbind (pcatch m) (\<lambda>r. case r of Some x \<Rightarrow> pret (Some x) | None \<Rightarrow> retry_loop n m)"

definition git :: "world \<Rightarrow> string \<Rightarrow> string \<Rightarrow> string option list \<Rightarrow> string prog" where
  "git w repo command args = call_str w (Git repo command args)"

text \<open>\<^verbatim>\<open>"{}".format(x)\<close> and the truth value of \<^verbatim>\<open>x\<close>, for a string or \<^verbatim>\<open>None\<close>.\<close>

definition fmt_str :: "string option \<Rightarrow> string" where
  "fmt_str x = (case x of None \<Rightarrow> ''None'' | Some t \<Rightarrow> t)"

definition truthy :: "string option \<Rightarrow> bool" where
  "truthy x \<longleftrightarrow> x \<noteq> None \<and> x \<noteq> Some []"

section \<open>The git steps\<close>

text \<open>
  A \<^verbatim>\<open>git.Repo\<close> is known by its working directory. The namespace and the component are
  left out where they are used in log messages only.
\<close>

definition clone_destination_repo :: "world \<Rightarrow> globals \<Rightarrow> scm \<Rightarrow> string \<Rightarrow> string option prog" where
  "clone_destination_repo w g dscm dirname =
     pbind (retry_loop (nat (g_retry g))
              (call_unit w (GitClone (scm_link dscm) dirname (scm_ref dscm)))) (\<lambda>r.
       pret (case r of None \<Rightarrow> None | Some u \<Rightarrow> Some dirname))"

definition fetch_upstream_repo :: "world \<Rightarrow> globals \<Rightarrow> scm \<Rightarrow> string \<Rightarrow> string option prog" where
  "fetch_upstream_repo w g sscm repo =
     pbind (git w repo ''remote'' [Some ''add'', Some ''source'', Some (scm_link sscm)]) (\<lambda>u.
     pbind (retry_loop (nat (g_retry g))
              (if truthy (scm_ref sscm)
               then git w repo ''fetch'' [Some ''--tags'', Some ''source'', scm_ref sscm]
               else git w repo ''fetch'' [Some ''--tags'', Some ''--all''])) (\<lambda>r.
       pret (case r of None \<Rightarrow> None | Some u \<Rightarrow> Some repo)))"

definition configure_repo :: "world \<Rightarrow> globals \<Rightarrow> string \<Rightarrow> string option prog" where
  "configure_repo w g repo =
     pbind (pcatch
              (case g_config g of
                 None \<Rightarrow> plift (Inl KeyError)
               | Some c \<Rightarrow>
                   pbind (git w repo ''config''
                            [Some ''user.name'', Some (git_author (main_git (c_main c)))]) (\<lambda>u.
                     git w repo ''config''
                       [Some ''user.email'', Some (git_email (main_git (c_main c)))]))) (\<lambda>r.
       pret (case r of None \<Rightarrow> None | Some u \<Rightarrow> Some repo))"

text \<open>
  \<open>sync_repo_merge\<close>: a branch name is free when \<^verbatim>\<open>rev_parse\<close> raises on it; the build
  reference is the first of \<^verbatim>\<open>source/<ref>\<close> and \<^verbatim>\<open><ref>\<close> that \<^verbatim>\<open>rev_parse\<close> accepts; the
  merge itself is one \<^verbatim>\<open>try\<close> block.
\<close>

fun fresh_branch :: "world \<Rightarrow> string \<Rightarrow> nat \<Rightarrow> string option prog" where
  "fresh_branch w repo 0 = pret None"
| "fresh_branch w repo (Suc n) =
     pbind (call_str w RandomName) (\<lambda>bname.
     pbind (pcatch (git w repo ''rev_parse'' [Some ''--quiet'', Some bname, Some ''--''])) (\<lambda>r.
       case r of Some u \<Rightarrow> fresh_branch w repo n | None \<Rightarrow> pret (Some bname)))"

fun locate_bref :: "world \<Rightarrow> string \<Rightarrow> string list \<Rightarrow> string option prog" where
  "locate_bref w repo [] = pret None"
| "locate_bref w repo (bref # rest) =
     pbind (pcatch (git w repo ''rev_parse'' [Some ''--quiet'', Some bref, Some ''--''])) (\<lambda>r.
       case r of Some u \<Rightarrow> pret (Some bref) | None \<Rightarrow> locate_bref w repo rest)"

definition sync_repo_merge ::
  "world \<Rightarrow> globals \<Rightarrow> string \<Rightarrow> string \<Rightarrow> string \<Rightarrow> scm \<Rightarrow> scm \<Rightarrow> scm \<Rightarrow> string option prog" where
  "sync_repo_merge w g ns compn repo bscm sscm dscm =
     pbind (fresh_branch w repo (nat (g_retry g))) (\<lambda>fb.
       case fb of
         None \<Rightarrow> pret None
       | Some bname \<Rightarrow>
           pbind (locate_bref w repo
                    [''source/'' @ fmt_str (scm_ref bscm), fmt_str (scm_ref bscm)]) (\<lambda>lb.
             case lb of
               None \<Rightarrow> pret None
             | Some bref \<Rightarrow>
                 pbind (pcatch
                   (case g_config g of
                      None \<Rightarrow> plift (Inl KeyError)
                    | Some c \<Rightarrow>
                        (let actor = git_author (main_git (c_main c)) @ '' <''
                               @ git_email (main_git (c_main c)) @ ''>''
                         in pbind (git w repo ''checkout'' [Some bref]) (\<lambda>u.
                            pbind (git w repo ''switch'' [Some ''-c'', Some bname]) (\<lambda>u.
                            pbind (git w repo ''merge''
                                     [Some ''--allow-unrelated-histories'', Some ''--no-commit'',
                                      Some ''-s'', Some ''ours'', scm_ref dscm]) (\<lambda>u.
                            pbind (git w repo ''commit''
                                     [Some ''--author'', Some actor, Some ''--allow-empty'',
                                      Some ''-m'', Some ''Temporary working tree merge'']) (\<lambda>u.
                            pbind (git w repo ''checkout'' [scm_ref dscm]) (\<lambda>u.
                            pbind (git w repo ''merge''
                                     [Some ''--no-commit'', Some ''--squash'', Some bname]) (\<lambda>u.
                            pbind (call_str w
                                     (MsgFile (''msg-'' @ ns @ ''-'' @ compn @ ''-'')
                                        (git_message (main_git (c_main c)) @ [CHR 0x0A]
                                           @ ''Source: '' @ scm_link sscm @ ''#''
                                           @ fmt_str (scm_ref bscm)))) (\<lambda>msgfile.
                              git w repo ''commit''
                                [Some ''--author'', Some actor, Some ''--allow-empty'',
                                 Some ''-F'', Some msgfile]))))))))))
                   (\<lambda>r. pret (case r of None \<Rightarrow> None | Some u \<Rightarrow> Some repo))))"

definition sync_repo_pull :: "world \<Rightarrow> string \<Rightarrow> scm \<Rightarrow> string option prog" where
  "sync_repo_pull w repo bscm =
     pbind (pcatch (git w repo ''pull''
                      [Some ''--ff-only'', Some ''--tags'', Some ''source'', scm_ref bscm])) (\<lambda>r.
       pret (case r of None \<Rightarrow> None | Some u \<Rightarrow> Some repo))"

text \<open>
  \<open>repo_push\<close>: every attempt is a \<^verbatim>\<open>git push\<close>, with \<^verbatim>\<open>--dry-run\<close> first among its arguments
  when \<^verbatim>\<open>dry_run\<close> is set; the first attempt that does not raise returns the repository.
\<close>

definition repo_push :: "world \<Rightarrow> globals \<Rightarrow> string \<Rightarrow> scm \<Rightarrow> string option prog" where
  "repo_push w g repo dscm =
     pbind (retry_loop (nat (g_retry g))
              (if \<not> g_dry_run g
               then git w repo ''push''
                      [Some ''--tags'', Some ''--set-upstream'', Some ''origin'', scm_ref dscm]
               else git w repo ''push''
                      [Some ''--dry-run'', Some ''--tags'', Some ''--set-upstream'',
                       Some ''origin'', scm_ref dscm])) (\<lambda>r.
       pret (case r of None \<Rightarrow> None | Some u \<Rightarrow> Some repo))"

section \<open>Reading the configuration\<close>

text \<open>
  \<^verbatim>\<open>c["main"]["control"]["exclude"][ns]\<close>, \<^verbatim>\<open>c["comps"][ns]\<close>, \<^verbatim>\<open>c["main"]["trigger"][ns]\<close>,
  \<^verbatim>\<open>c["main"]["defaults"][ns]\<close> and \<^verbatim>\<open>c["main"][which]\<close>: a namespace that is not a key of
  the dictionary raises \<^verbatim>\<open>KeyError\<close>, and so does a key that the loader left out.
\<close>

definition ebind :: "exn + 'a \<Rightarrow> ('a \<Rightarrow> exn + 'b) \<Rightarrow> exn + 'b" where
  "ebind m f = (case m of Inl e \<Rightarrow> Inl e | Inr x \<Rightarrow> f x)"

definition exclude_of :: "config \<Rightarrow> string \<Rightarrow> exn + pyval set" where
  "exclude_of c ns =
     (if ns = ''rpms'' then Inr (exclude_rpms (main_control (c_main c)))
      else if ns = ''modules'' then Inr (exclude_modules (main_control (c_main c)))
      else Inl KeyError)"

definition excluded :: "config \<Rightarrow> string \<Rightarrow> string \<Rightarrow> exn + bool" where
  "excluded c ns compn = ebind (exclude_of c ns) (\<lambda>x. Inr (PStr compn \<in> x))"

definition comps_of :: "config \<Rightarrow> string \<Rightarrow> exn + (string \<times> comp_cfg) list" where
  "comps_of c ns =
     (if ns = ''rpms'' then Inr (c_comps_rpms c)
      else if ns = ''modules'' then Inr (c_comps_modules c)
      else Inl KeyError)"

definition trigger_of :: "config \<Rightarrow> string \<Rightarrow> exn + string" where
  "trigger_of c ns =
     (case (if ns = ''rpms'' then trigger_rpms (main_trigger (c_main c))
            else if ns = ''modules'' then trigger_modules (main_trigger (c_main c))
            else None) of
        None \<Rightarrow> Inl KeyError
      | Some tag \<Rightarrow> Inr tag)"

definition defaults_of :: "config \<Rightarrow> string \<Rightarrow> exn + srcdst" where
  "defaults_of c ns =
     (if ns = ''rpms'' then Inr (defaults_rpms (main_defaults (c_main c)))
      else if ns = ''modules'' then Inr (defaults_modules (main_defaults (c_main c)))
      else if ns = ''cache'' then Inr (defaults_cache (main_defaults (c_main c)))
      else Inl KeyError)"

definition required :: "'a option \<Rightarrow> exn + 'a" where
  "required x = (case x of None \<Rightarrow> Inl KeyError | Some v \<Rightarrow> Inr v)"

definition endpoint_of :: "config \<Rightarrow> string \<Rightarrow> endpoint" where
  "endpoint_of c which =
     (if which = ''destination'' then main_destination (c_main c) else main_source (c_main c))"

section \<open>The build systems\<close>

text \<open>
  \<open>get_buildsys\<close> keeps one session for the source and one for the destination. A session
  is known by its role. A cached session older than 3550 seconds, or a day, is replaced;
  the age is a \<^verbatim>\<open>timedelta\<close>, whose \<^verbatim>\<open>days\<close> and \<^verbatim>\<open>seconds\<close> are the quotient and the remainder
  by 86400. Times are whole seconds.
\<close>

definition set_session :: "string \<Rightarrow> int \<Rightarrow> unit prog" where
  "set_session which t s = (Inr (), s\<lparr> sessions := (sessions s)(which \<mapsto> t) \<rparr>)"

definition get_session :: "string \<Rightarrow> int option prog" where
  "get_session which s = (Inr (sessions s which), s)"

definition get_buildsys :: "world \<Rightarrow> globals \<Rightarrow> string \<Rightarrow> string option prog" where
  "get_buildsys w g which =
     (case g_config g of
        None \<Rightarrow> pret None
      | Some c \<Rightarrow>
          if which \<noteq> ''source'' \<and> which \<noteq> ''destination'' then pret None
          else
            pbind (get_session which) (\<lambda>started.
            pbind (case started of
                     None \<Rightarrow> pret False
                   | Some t0 \<Rightarrow>
                       pbind (call_time w) (\<lambda>now.
                         pret ((now - t0) mod 86400 > 3550 \<or> (now - t0) div 86400 > 0)))
              (\<lambda>session_timed_out.
                if session_timed_out \<or> started = None then
                  pbind (pcatch (call_unit w
                           (KojiConnect which (ep_profile (endpoint_of c which))))) (\<lambda>r.
                    case r of
                      None \<Rightarrow> pret None
                    | Some u \<Rightarrow>
                        pbind (if which = ''destination''
                               then pcatch
                                      (pbind (if session_timed_out
                                              then call_unit w (KojiLogout which)
                                              else pret ()) (\<lambda>u.
                                         call_unit w (KojiLogin which)))
                               else pret (Some ())) (\<lambda>l.
                          case l of
                            None \<Rightarrow> pret None
                          | Some u \<Rightarrow>
                              pbind (call_time w) (\<lambda>now.
                              pbind (set_session which now) (\<lambda>u. pret (Some which)))))
                else pret (Some which))))"

text \<open>
  \<open>get_build_info\<close>: the SCM URL of a build and, for a module, its name, stream and
  metadata; the three are \<^verbatim>\<open>None\<close> together when any of them cannot be read.
\<close>

record build_info =
  bi_scmurl :: pyval
  bi_name :: pyval
  bi_stream :: pyval
  bi_modulemd :: pyval

definition module_info :: "pyval \<Rightarrow> exn + pyval \<times> pyval \<times> pyval" where
  "module_info bsrc =
     ebind (py_getitem bsrc ''extra'') (\<lambda>x.
     ebind (py_getitem x ''typeinfo'') (\<lambda>t.
     ebind (py_getitem t ''module'') (\<lambda>minfo.
     ebind (py_getitem minfo ''name'') (\<lambda>n.
     ebind (py_getitem minfo ''stream'') (\<lambda>s.
     ebind (py_getitem minfo ''modulemd_str'') (\<lambda>m. Inr (n, s, m)))))))"

definition get_build_info :: "world \<Rightarrow> globals \<Rightarrow> pyval \<Rightarrow> build_info option prog" where
  "get_build_info w g nvr =
     (case g_config g of
        None \<Rightarrow> pret None
      | Some c \<Rightarrow>
          pbind (get_buildsys w g ''source'') (\<lambda>bsys.
            case bsys of
              None \<Rightarrow> pret None
            | Some session \<Rightarrow>
                pbind (pcatch (call_val w (KojiGetBuild session nvr))) (\<lambda>r.
                  case r of
                    None \<Rightarrow> pret None
                  | Some bsrc \<Rightarrow>
                      pbind (plift (py_in ''source'' bsrc)) (\<lambda>has.
                        if \<not> has then pret None
                        else
                          pbind (plift (py_getitem bsrc ''source'')) (\<lambda>src.
                            pret (Some
                              (case module_info bsrc of
                                 Inr (n, s, m) \<Rightarrow>
                                   \<lparr> bi_scmurl = src, bi_name = n, bi_stream = s,
                                     bi_modulemd = m \<rparr>
                               | Inl e \<Rightarrow>
                                   \<lparr> bi_scmurl = src, bi_name = PNone, bi_stream = PNone,
                                     bi_modulemd = PNone \<rparr>)))))))"

text \<open>
  Iterating a value and reading its first element, as \<^verbatim>\<open>for b in builds\<close> and \<^verbatim>\<open>nvr[0]\<close> do.
\<close>

fun py_iter :: "pyval \<Rightarrow> exn + pyval list" where
  "py_iter (PList xs) = Inr xs"
| "py_iter (PStr s) = Inr (map (\<lambda>ch. PStr [ch]) s)"
| "py_iter (PDict d) = Inr (map (\<lambda>kv. PStr (fst kv)) d)"
| "py_iter _ = Inl TypeError"

fun py_first :: "pyval \<Rightarrow> exn + pyval" where
  "py_first (PList xs) = (case xs of [] \<Rightarrow> Inl IndexError | x # r \<Rightarrow> Inr x)"
| "py_first (PStr s) = (case s of [] \<Rightarrow> Inl IndexError | ch # r \<Rightarrow> Inr (PStr [ch]))"
| "py_first (PDict d) = Inl KeyError"
| "py_first _ = Inl TypeError"

text \<open>
  The loop of \<open>get_build\<close> over the tagged builds of a module: the last build whose name
  and stream are the ones asked for.
\<close>

fun latest_of ::
  "world \<Rightarrow> globals \<Rightarrow> string \<Rightarrow> string \<Rightarrow> pyval list \<Rightarrow> pyval \<Rightarrow> pyval prog" where
  "latest_of w g cname sname [] latest = pret latest"
| "latest_of w g cname sname (b # builds) latest =
     pbind (plift (py_getitem b ''nvr'')) (\<lambda>nvr.
     pbind (get_build_info w g nvr) (\<lambda>binfo.
       case binfo of
         None \<Rightarrow> latest_of w g cname sname builds latest
       | Some bi \<Rightarrow>
           if bi_name bi = PNone \<or> bi_stream bi = PNone
           then latest_of w g cname sname builds latest
           else if PStr cname = bi_name bi \<and> PStr sname = bi_stream bi
           then pbind (plift (py_getitem b ''nvr'')) (latest_of w g cname sname builds)
           else latest_of w g cname sname builds latest))"

text \<open>A Python value as a result that is tested with \<^verbatim>\<open>is None\<close>.\<close>

definition as_option :: "pyval \<Rightarrow> pyval option" where
  "as_option v = (if v = PNone then None else Some v)"

definition get_build :: "world \<Rightarrow> globals \<Rightarrow> string \<Rightarrow> string \<Rightarrow> pyval option prog" where
  "get_build w g compn ns =
     (case g_config g of
        None \<Rightarrow> pret None
      | Some c \<Rightarrow>
          pbind (get_buildsys w g ''source'') (\<lambda>bsys.
            case bsys of
              None \<Rightarrow> pret None
            | Some session \<Rightarrow>
                if ns = ''rpms'' then
                  pbind (pcatch
                           (pbind (plift (trigger_of c ns)) (\<lambda>tag.
                              call_val w (KojiListTagged session (Some tag) (Some compn) True))))
                    (\<lambda>r.
                      case r of
                        None \<Rightarrow> pret None
                      | Some nvr \<Rightarrow>
                          if py_bool nvr
                          then pbind (plift (ebind (py_first nvr) (\<lambda>b. py_getitem b ''nvr'')))
                                 (\<lambda>v. pret (as_option v))
                          else pret None)
                else if ns = ''modules'' then
                  pbind (pcatch
                           (pbind (plift (trigger_of c ns)) (\<lambda>tag.
                              call_val w (KojiListTagged session (Some tag) None False))))
                    (\<lambda>r.
                      case r of
                        None \<Rightarrow> pret None
                      | Some builds \<Rightarrow>
                          if \<not> py_bool builds then pret None
                          else
                            pbind (plift (py_iter builds)) (\<lambda>bs.
                            pbind (latest_of w g (mname (split_module compn))
                                     (mstream (split_module compn)) bs PNone) (\<lambda>latest.
                              pret (if py_bool latest then Some latest else None))))
                else pret None))"

text \<open>
  The first loop of \<open>process_components\<close>: the map from \<^verbatim>\<open>name:stream\<close> to the NVR of the
  latest tagged build, over the tagged builds in the order the build system lists them.
  \<open>latest_modules\<close> is \<open>process_components\<close> up to the end of this loop; it is \<^const>\<open>None\<close>
  when the function returns before the loop, with no configuration loaded.
\<close>

fun latest_loop ::
  "world \<Rightarrow> globals \<Rightarrow> pyval list \<Rightarrow> (string \<rightharpoonup> pyval) \<Rightarrow> (string \<rightharpoonup> pyval) prog" where
  "latest_loop w g [] latest = pret latest"
| "latest_loop w g (x # xs) latest =
     pbind (plift (py_getitem x ''nvr'')) (\<lambda>nvr.
     pbind (get_build_info w g nvr) (\<lambda>binfo.
       case binfo of
         None \<Rightarrow> latest_loop w g xs latest
       | Some bi \<Rightarrow>
           if bi_name bi = PNone \<or> bi_stream bi = PNone
           then latest_loop w g xs latest
           else pbind (plift (py_getitem x ''nvr'')) (\<lambda>v.
                  latest_loop w g xs
                    (latest(py_str (bi_name bi) @ '':'' @ py_str (bi_stream bi) \<mapsto> v)))))"

definition latest_modules :: "world \<Rightarrow> globals \<Rightarrow> (string \<rightharpoonup> pyval) option prog" where
  "latest_modules w g =
     (case g_config g of
        None \<Rightarrow> pret None
      | Some c \<Rightarrow>
          pbind (get_buildsys w g ''source'') (\<lambda>bsys.
            case bsys of
              None \<Rightarrow> plift (Inl AttributeError)
            | Some session \<Rightarrow>
                pbind (plift (trigger_of c ''modules'')) (\<lambda>tag.
                pbind (call_val w (KojiListTagged session (Some tag) None False)) (\<lambda>tagged.
                pbind (plift (py_iter tagged)) (\<lambda>xs.
                pbind (latest_loop w g xs Map.empty) (\<lambda>latest. pret (Some latest)))))))"

section \<open>sync_cache\<close>

text \<open>
  The names under which the blobs of a component are kept in the two caches. A configured
  component has its own; for the others the source computes both names from the template
  \<^verbatim>\<open>c["main"]["defaults"]["cache"]["source"]\<close>, the destination name too.
\<close>

definition cache_names :: "config \<Rightarrow> string \<Rightarrow> string \<Rightarrow> exn + string \<times> string" where
  "cache_names c ns compn =
     ebind (comps_of c ns) (\<lambda>comps.
       case map_of comps compn of
         Some cc \<Rightarrow> Inr (comp_cache_source cc, comp_cache_destination cc)
       | None \<Rightarrow>
           ebind (required (sd_source (defaults_cache (main_defaults (c_main c))))) (\<lambda>t.
           ebind (py_format t [(''component'', compn)]) (\<lambda>scname.
           ebind (required (sd_source (defaults_cache (main_defaults (c_main c))))) (\<lambda>t'.
           ebind (py_format t' [(''component'', compn)]) (\<lambda>dcname.
             Inr (scname, dcname))))))"

text \<open>\<^verbatim>\<open>os.path.join\<close> of two POSIX paths.\<close>

definition path_join :: "string \<Rightarrow> string \<Rightarrow> string" where
  "path_join a b =
     (if b \<noteq> [] \<and> hd b = CHR ''/'' then b
      else if a = [] \<or> last a = CHR ''/'' then a @ b
      else a @ ''/'' @ b)"

text \<open>
  One attempt for one source file \<^verbatim>\<open>s = (filename, hash, hashtype)\<close>: when the destination
  cache does not have the file, it is downloaded from the source cache, and uploaded to the
  destination cache unless \<^verbatim>\<open>dry_run\<close> is set.
\<close>

definition sync_attempt ::
  "world \<Rightarrow> globals \<Rightarrow> config \<Rightarrow> string \<Rightarrow> string \<Rightarrow> string \<Rightarrow> string \<Rightarrow> source_entry
     \<Rightarrow> unit prog" where
  "sync_attempt w g c ns scname dcname tempdir s =
     (let scache = ep_cache (main_source (c_main c));
          dcache = ep_cache (main_destination (c_main c));
          file = fst s; hash = fst (snd s); hashtype = snd (snd s)
      in pbind (call_val w (CacheExists dcache (ns @ ''/'' @ dcname) file hash hashtype)) (\<lambda>ex.
           if \<not> py_bool ex then
             pbind (call_unit w
                      (CacheDownload scache (ns @ ''/'' @ scname) file hash
                         (path_join tempdir file) hashtype)) (\<lambda>u.
               if \<not> g_dry_run g
               then call_unit w
                      (CacheUpload dcache (ns @ ''/'' @ dcname) (path_join tempdir file) hash
                         hashtype)
               else pret ())
           else pret ()))"

fun sync_sources ::
  "world \<Rightarrow> globals \<Rightarrow> config \<Rightarrow> string \<Rightarrow> string \<Rightarrow> string \<Rightarrow> string \<Rightarrow> source_entry list
     \<Rightarrow> bool prog" where
  "sync_sources w g c ns scname dcname tempdir [] = pret True"
| "sync_sources w g c ns scname dcname tempdir (s # sources) =
     pbind (retry_loop (nat (g_retry g))
              (sync_attempt w g c ns scname dcname tempdir s)) (\<lambda>r.
       case r of
         None \<Rightarrow> pret False
       | Some u \<Rightarrow> sync_sources w g c ns scname dcname tempdir sources)"

text \<open>
  \<open>sync_cache\<close> takes the sources in the order in which the set is iterated. The custom
  source cache URL only gives a warning.
\<close>

definition sync_cache ::
  "world \<Rightarrow> globals \<Rightarrow> string \<Rightarrow> source_entry list \<Rightarrow> string \<Rightarrow> string option
     \<Rightarrow> nat option prog" where
  "sync_cache w g compn sources ns scacheurl =
     (case g_config g of
        None \<Rightarrow> pret None
      | Some c \<Rightarrow>
          pbind (plift (excluded c ns compn)) (\<lambda>ex.
            if ex then pret None
            else
              pbind (call_str w (MkTemp (''cache-'' @ ns @ ''-'' @ compn @ ''-''))) (\<lambda>tempdir.
              pbind (plift (cache_names c ns compn)) (\<lambda>names.
              pbind (sync_sources w g c ns (fst names) (snd names) tempdir sources) (\<lambda>ok.
                pret (if ok then Some (length sources) else None))))))"

section \<open>build_comp\<close>

definition mbs_item :: "config \<Rightarrow> string \<Rightarrow> exn + pyval" where
  "mbs_item c k =
     ebind (required (ep_mbs (main_destination (c_main c)))) (\<lambda>m. required (map_of m k))"

text \<open>
  The answer of the module build service: 401 and every other failure give \<^verbatim>\<open>None\<close>;
  otherwise the build id is read from the JSON object, or from the first one of a list.
\<close>

definition mbs_result :: "http_response \<Rightarrow> pyval option prog" where
  "mbs_result resp =
     (if status_code resp = 401 then pret None
      else if \<not> resp_ok resp then pret None
      else
        pbind (plift (case resp_json resp of None \<Rightarrow> Inl ValueError | Some v \<Rightarrow> Inr v)) (\<lambda>rdata.
        pbind (plift (case rdata of PList xs \<Rightarrow> py_first rdata | _ \<Rightarrow> Inr rdata)) (\<lambda>build.
        pbind (plift (py_getitem build ''id'')) (\<lambda>buildid. pret (as_option buildid)))))"

text \<open>
  \<open>build_comp\<close> returns the task or build id, or \<^const>\<open>None\<close>. In the dry-run mode the session
  of the destination build system is not asked for, and the id is 0.
\<close>

definition build_comp ::
  "world \<Rightarrow> globals \<Rightarrow> string \<Rightarrow> string option \<Rightarrow> string \<Rightarrow> pyval option prog" where
  "build_comp w g compn rf ns =
     (case g_config g of
        None \<Rightarrow> pret None
      | Some c \<Rightarrow>
          pbind (plift (excluded c ns compn)) (\<lambda>ex.
            if ex then pret None
            else if \<not> control_build (main_control (c_main c)) then pret None
            else
              pbind (if \<not> g_dry_run g then get_buildsys w g ''destination'' else pret None)
                (\<lambda>bsys.
              pbind (plift (comps_of c ns)) (\<lambda>comps.
                let buildcomp = (case map_of comps compn of
                                   Some cc \<Rightarrow> scm_comp (split_scmurl (comp_destination cc))
                                 | None \<Rightarrow> Some compn);
                    prefix = build_prefix (main_build (c_main c));
                    scratch = build_scratch (main_build (c_main c))
                in if ns = ''rpms'' then
                     (let buildscmurl = prefix @ ''/'' @ ns @ ''/'' @ fmt_str buildcomp @ ''#''
                            @ fmt_str rf
                      in if \<not> g_dry_run g then
                           (case bsys of
                              None \<Rightarrow> pret None
                            | Some session \<Rightarrow>
                                pbind (pcatch (call_val w
                                         (KojiBuild session buildscmurl
                                            (build_target (main_build (c_main c))) scratch)))
                                  (\<lambda>task. pret (case task of None \<Rightarrow> None
                                                | Some t \<Rightarrow> as_option t)))
                         else pret (Some (PInt 0)))
                   else if ns = ''modules'' then
                     pbind (plift (case buildcomp of None \<Rightarrow> Inl AttributeError
                                   | Some b \<Rightarrow> Inr (split_module b))) (\<lambda>ms.
                       let buildscmurl = prefix @ ''/'' @ ns @ ''/'' @ mname ms @ ''#'' @ fmt_str rf;
                           ps = split_module (build_platform (main_build (c_main c)));
                           body = PDict [(''scmurl'', PStr buildscmurl),
                                         (''branch'', PStr (mstream ms)),
                                         (''buildrequire_overrides'',
                                            PDict [(mname ps, PList [PStr (mstream ps)])]),
                                         (''scratch'', PBool scratch)]
                       in pbind (plift (mbs_item c ''api_url'')) (\<lambda>api_url.
                          pbind (plift (mbs_item c ''auth_method'')) (\<lambda>auth_method.
                            let request_url = py_str api_url @ ''/module-builds/''
                            in if \<not> g_dry_run g then
                                 (if auth_method = PStr ''kerberos'' then
                                    pbind (pcatch (call_http w (MbsKerberos request_url body)))
                                      (\<lambda>r. case r of None \<Rightarrow> pret None
                                            | Some resp \<Rightarrow> mbs_result resp)
                                  else if auth_method = PStr ''oidc'' then
                                    pbind (pcatch
                                      (pbind (plift (mbs_item c ''oidc_id_provider'')) (\<lambda>idp.
                                       pbind (plift (mbs_item c ''oidc_client_id'')) (\<lambda>cid.
                                       pbind (plift (mbs_item c ''oidc_client_secret'')) (\<lambda>sec.
                                       pbind (plift (mbs_item c ''oidc_scopes'')) (\<lambda>scopes.
                                         call_http w
                                           (MbsOidc idp cid sec request_url body scopes)))))))
                                      (\<lambda>r. case r of None \<Rightarrow> pret None
                                            | Some resp \<Rightarrow> mbs_result resp)
                                  else pret None)
                               else pret (Some (PInt 0)))))
                   else pret None))))"

section \<open>sync_repo and sync_module_components\<close>

text \<open>
  The source and destination SCM of a component, as \<open>sync_repo\<close> computes them from the
  configuration (\<^verbatim>\<open>csrc\<close>, \<^verbatim>\<open>cdst\<close>, then \<^verbatim>\<open>sscm\<close>, \<^verbatim>\<open>dscm\<close>). For a component of a module the
  templates come from the overrides of the module or from \<^verbatim>\<open>defaults.modules.rpms\<close>, get
  \<^verbatim>\<open>#%(ref)s\<close> appended when they hold no \<^verbatim>\<open>#\<close>, and are formatted with the build ref. The
  result is \<^const>\<open>None\<close> where \<open>sync_repo\<close> returns \<^verbatim>\<open>None\<close> (a module inside a module).
\<close>

fun add_ref :: "pyval \<Rightarrow> exn + pyval" where
  "add_ref (PStr t) = Inr (PStr (if CHR ''#'' \<in> set t then t else t @ ''#%(ref)s''))"
| "add_ref (PList xs) =
     Inr (PList (if PStr ''#'' \<in> set xs then xs else xs @ map (\<lambda>ch. PStr [ch]) ''#%(ref)s''))"
| "add_ref (PDict d) = (if map_of d ''#'' \<noteq> None then Inr (PDict d) else Inl TypeError)"
| "add_ref _ = Inl TypeError"

fun format_value :: "pyval \<Rightarrow> (string \<times> string) list \<Rightarrow> exn + string" where
  "format_value (PStr t) m = py_format t m"
| "format_value _ m = Inl TypeError"

definition component_urls ::
  "config \<Rightarrow> string \<Rightarrow> string \<Rightarrow> string option \<Rightarrow> string \<Rightarrow> exn + (string \<times> string) option" where
  "component_urls c ns compn cmodule bref =
     (let cname = (if ns = ''modules'' then mname (split_module compn) else compn);
          sname = (if ns = ''modules'' then mstream (split_module compn) else [])
      in if truthy cmodule then
           (if ns = ''modules'' then Inr None
            else if ns \<noteq> ''rpms'' then Inl KeyError
            else
              (let cm = fmt_str cmodule;
                   sub = (case map_of (c_comps_modules c) cm of
                            None \<Rightarrow> None
                          | Some mc \<Rightarrow> map_of (comp_rpms mc) compn);
                   tpl = (case sub of
                            Some x \<Rightarrow> x
                          | None \<Rightarrow> defaults_modules_rpms (main_defaults (c_main c)));
                   m = [(''component'', cname), (''name'', mname (split_module cm)),
                        (''ref'', bref), (''stream'', mstream (split_module cm))]
               in ebind (add_ref (psd_source tpl)) (\<lambda>csrc.
                  ebind (add_ref (psd_destination tpl)) (\<lambda>cdst.
                  ebind (format_value csrc m) (\<lambda>csrc'.
                  ebind (format_value cdst m) (\<lambda>cdst'. Inr (Some (csrc', cdst'))))))))
         else
           ebind (comps_of c ns) (\<lambda>comps.
             case map_of comps compn of
               Some cc \<Rightarrow> Inr (Some (comp_source cc, comp_destination cc))
             | None \<Rightarrow>
                 (let m = [(''component'', cname), (''stream'', sname)]
                  in ebind (defaults_of c ns) (\<lambda>d.
                     ebind (required (sd_source d)) (\<lambda>ts.
                     ebind (py_format ts m) (\<lambda>csrc.
                     ebind (defaults_of c ns) (\<lambda>d'.
                     ebind (required (sd_destination d')) (\<lambda>td.
                     ebind (py_format td m) (\<lambda>cdst. Inr (Some (csrc, cdst)))))))))))"

definition component_scms ::
  "config \<Rightarrow> string \<Rightarrow> string \<Rightarrow> string option \<Rightarrow> string \<Rightarrow> exn + (scm \<times> scm) option" where
  "component_scms c ns compn cmodule bref =
     ebind (component_urls c ns compn cmodule bref) (\<lambda>u.
       case u of
         None \<Rightarrow> Inr None
       | Some (csrc, cdst) \<Rightarrow>
           (let sscm = split_scmurl (ep_scm (main_source (c_main c)) @ ''/'' @ ns @ ''/'' @ csrc);
                dscm = split_scmurl
                         (ep_scm (main_destination (c_main c)) @ ''/'' @ ns @ ''/'' @ cdst)
            in Inr (Some (sscm,
                 dscm\<lparr> scm_ref := (if truthy (scm_ref dscm) then scm_ref dscm
                                    else Some ''master'') \<rparr>))))"

text \<open>
  The first part of \<open>sync_repo\<close>: the SCM URL of the build and its module metadata, and the
  NVR as it stands afterwards. \<^const>\<open>None\<close> is the \<^verbatim>\<open>return None\<close> of the source.
\<close>

definition nvr_given :: "pyval option \<Rightarrow> bool" where
  "nvr_given nvr = (case nvr of None \<Rightarrow> False | Some v \<Rightarrow> py_bool v)"

definition build_coordinate ::
  "world \<Rightarrow> globals \<Rightarrow> string \<Rightarrow> string \<Rightarrow> pyval option \<Rightarrow> string option
     \<Rightarrow> (pyval \<times> pyval \<times> pyval option) option prog" where
  "build_coordinate w g compn ns nvr scmurl =
     (if truthy scmurl then pret (Some (PStr (fmt_str scmurl), PNone, nvr))
      else
        pbind (if nvr_given nvr then pret nvr else get_build w g compn ns) (\<lambda>nvr'.
          case nvr' of
            None \<Rightarrow> pret None
          | Some v \<Rightarrow>
              pbind (get_build_info w g v) (\<lambda>binfo.
                case binfo of
                  None \<Rightarrow> pret None
                | Some bi \<Rightarrow> pret (Some (bi_scmurl bi, bi_modulemd bi, Some v)))))"

definition read_sources :: "world \<Rightarrow> string \<Rightarrow> source_entry set option prog" where
  "read_sources w repo =
     pbind (call_file w (ReadSources (path_join repo ''sources''))) (\<lambda>f. pret (parse_sources f))"

text \<open>
  \<open>sync_repo_with expand\<close> is \<open>sync_repo\<close> with the module expander as a parameter: the two
  functions call each other in the source, \<open>sync_repo\<close> the expander for a module, and the
  expander \<open>sync_repo\<close> for the packages of the module, in the namespace \<^verbatim>\<open>rpms\<close>, where the
  expander is not called again.
  The flag \<^verbatim>\<open>pushrepo\<close> of the source is set exactly when no \<^verbatim>\<open>gitdir\<close> was given; the model
  tests \<^verbatim>\<open>gitdir\<close> where the source tests the flag.
\<close>

definition sync_repo_with ::
  "(string \<Rightarrow> pyval option \<Rightarrow> pyval \<Rightarrow> bool prog) \<Rightarrow> world \<Rightarrow> globals \<Rightarrow> string \<Rightarrow> string
     \<Rightarrow> pyval option \<Rightarrow> string option \<Rightarrow> string option \<Rightarrow> string option \<Rightarrow> string option
     \<Rightarrow> string option prog" where
  "sync_repo_with expand w g compn ns nvr gitdir cmodule scmurl bcache =
     (case g_config g of
        None \<Rightarrow> pret None
      | Some c \<Rightarrow>
          pbind (plift (excluded c ns compn)) (\<lambda>ex.
            if ex then pret None
            else
              pbind (build_coordinate w g compn ns nvr scmurl) (\<lambda>bc.
                case bc of
                  None \<Rightarrow> pret None
                | Some (bscmurl, bmmd, nvr') \<Rightarrow>
                    pbind (plift (case bscmurl of PStr u \<Rightarrow> Inr (split_scmurl u)
                                  | _ \<Rightarrow> Inl AttributeError)) (\<lambda>bscm0.
                      let bscm = bscm0\<lparr> scm_ref := (if truthy (scm_ref bscm0) then scm_ref bscm0
                                                      else Some ''master'') \<rparr>
                      in pbind (plift (component_scms c ns compn cmodule (fmt_str (scm_ref bscm))))
                           (\<lambda>scms.
                             case scms of
                               None \<Rightarrow> pret None
                             | Some (sscm, dscm) \<Rightarrow>
                                 pbind (if truthy gitdir then pret (fmt_str gitdir)
                                        else call_str w
                                               (MkTemp (''repo-'' @ ns @ ''-'' @ compn @ ''-'')))
                                   (\<lambda>dir.
                                 pbind (clone_destination_repo w g dscm dir) (\<lambda>cl.
                                   case cl of
                                     None \<Rightarrow> pret None
                                   | Some repo \<Rightarrow>
                                       pbind (fetch_upstream_repo w g sscm repo) (\<lambda>fe.
                                         if fe = None then pret None
                                         else
                                           pbind (configure_repo w g repo) (\<lambda>cf.
                                             if cf = None then pret None
                                             else
                                               pbind (read_sources w repo) (\<lambda>ds.
                                                 case ds of
                                                   None \<Rightarrow> pret None
                                                 | Some dsrc \<Rightarrow>
  pbind (if control_merge (main_control (c_main c))
         then sync_repo_merge w g ns compn repo bscm sscm dscm
         else sync_repo_pull w repo bscm) (\<lambda>sy.
    if sy = None then pret None
    else
      pbind (read_sources w repo) (\<lambda>ss.
        case ss of
          None \<Rightarrow> pret None
        | Some ssrc \<Rightarrow>
            pbind (if ssrc - dsrc \<noteq> {}
                   then sync_cache w g compn (iter_order w (ssrc - dsrc)) ns bcache
                   else pret (Some 0)) (\<lambda>sc.
              if sc = None then pret None
              else
                pbind (if ns = ''modules'' then expand compn nvr' bmmd else pret True) (\<lambda>ok.
                  if \<not> ok then pret None
                  else if \<not> truthy gitdir then
                    pbind (repo_push w g repo dscm) (\<lambda>pu.
                      if pu = None then pret None
                      else
                        pbind (git w repo ''rev_parse'' [Some ''HEAD'']) (\<lambda>head.
                          pret (Some (scm_link dscm @ ''#'' @ head))))
                  else pret (Some (scm_link dscm @ ''#'' @ fmt_str (scm_ref dscm)))))))))))))))))"

text \<open>
  \<open>sync_module_components\<close>. The loop over the RPM components gives each component a
  fresh directory and calls \<open>sync_repo\<close> on it, without push; it keeps the directory and
  the returned URL of each component in dictionaries in insertion order, and stops at the
  first failure. A module component makes the function return \<^verbatim>\<open>True\<close> at once. The last
  loop pushes the kept repositories and stops at the first failure.
\<close>

fun dict_set :: "string \<Rightarrow> 'a \<Rightarrow> (string \<times> 'a) list \<Rightarrow> (string \<times> 'a) list" where
  "dict_set k v [] = [(k, v)]"
| "dict_set k v (p # ps) = (if fst p = k then (k, v) # ps else p # dict_set k v ps)"

definition cscmurl_of :: "rpm_component \<Rightarrow> string option" where
  "cscmurl_of compinfo =
     (case rc_ref compinfo of
        Some cref \<Rightarrow> Some (fmt_str (rc_repository compinfo) @ ''#'' @ cref)
      | None \<Rightarrow> rc_repository compinfo)"

fun sync_rpm_components ::
  "world \<Rightarrow> globals \<Rightarrow> string \<Rightarrow> (string \<times> rpm_component) list \<Rightarrow> (string \<times> string \<times> string) list
     \<Rightarrow> (string \<times> string \<times> string) list option prog" where
  "sync_rpm_components w g compn [] dirs = pret (Some dirs)"
| "sync_rpm_components w g compn ((mc, compinfo) # mcomps) dirs =
     pbind (call_str w (MkTemp (''mcrepo-'' @ compn @ ''-rpms-'' @ mc @ ''-''))) (\<lambda>gitdir.
     pbind (sync_repo_with (\<lambda>a b c. pret False) w g mc ''rpms'' None (Some gitdir) (Some compn)
              (cscmurl_of compinfo) (rc_cache compinfo)) (\<lambda>scmurl.
       case scmurl of
         None \<Rightarrow> pret None
       | Some u \<Rightarrow> sync_rpm_components w g compn mcomps (dict_set mc (gitdir, u) dirs)))"

fun push_components ::
  "world \<Rightarrow> globals \<Rightarrow> (string \<times> string \<times> string) list \<Rightarrow> bool prog" where
  "push_components w g [] = pret True"
| "push_components w g ((mc, gitdir, scmurl) # dirs) =
     pbind (repo_push w g gitdir (split_scmurl scmurl)) (\<lambda>r.
       case r of
         None \<Rightarrow> pret False
       | Some u \<Rightarrow> push_components w g dirs)"

definition module_metadata :: "world \<Rightarrow> globals \<Rightarrow> pyval \<Rightarrow> pyval \<Rightarrow> pyval option prog" where
  "module_metadata w g nvr modulemd =
     (if modulemd \<noteq> PNone then pret (Some modulemd)
      else
        pbind (get_buildsys w g ''source'') (\<lambda>bsys.
          case bsys of
            None \<Rightarrow> pret None
          | Some session \<Rightarrow>
              pbind (pcatch (call_val w (KojiGetBuild session nvr))) (\<lambda>r.
                case r of
                  None \<Rightarrow> pret None
                | Some bsrc \<Rightarrow>
                    pret (case ebind (py_getitem bsrc ''extra'') (\<lambda>x.
                               ebind (py_getitem x ''typeinfo'') (\<lambda>t.
                               ebind (py_getitem t ''module'') (\<lambda>minfo.
                                 py_getitem minfo ''modulemd_str''))) of
                            Inl e \<Rightarrow> None
                          | Inr m \<Rightarrow> Some m))))"

definition sync_module_components ::
  "world \<Rightarrow> globals \<Rightarrow> string \<Rightarrow> pyval option \<Rightarrow> pyval \<Rightarrow> bool prog" where
  "sync_module_components w g compn nvr modulemd =
     (case g_config g of
        None \<Rightarrow> pret False
      | Some c \<Rightarrow>
          (case nvr of
             None \<Rightarrow> pret False
           | Some v \<Rightarrow>
               pbind (module_metadata w g v modulemd) (\<lambda>md.
                 case md of
                   None \<Rightarrow> pret False
                 | Some doc \<Rightarrow>
                     pbind (plift (case doc of
                                     PStr t \<Rightarrow> (case read_packager_string w t of
                                                  None \<Rightarrow> Inl ValueError
                                                | Some mmd \<Rightarrow> Inr mmd)
                                   | _ \<Rightarrow> Inl TypeError)) (\<lambda>mmd.
                       case mmd of
                         OtherDocument \<Rightarrow> pret False
                       | ModuleStreamV2 rpms mods \<Rightarrow>
                           pbind (sync_rpm_components w g compn rpms []) (\<lambda>r.
                             case r of
                               None \<Rightarrow> pret False
                             | Some dirs \<Rightarrow>
                                 (case mods of
                                    mc # rest \<Rightarrow>
                                      pbind (call_str w
                                               (MkTemp (''mcrepo-'' @ compn @ ''-modules-'' @ mc
                                                  @ ''-''))) (\<lambda>d. pret True)
                                  | [] \<Rightarrow> push_components w g dirs))))))"

definition sync_repo ::
  "world \<Rightarrow> globals \<Rightarrow> string \<Rightarrow> string \<Rightarrow> pyval option \<Rightarrow> string option \<Rightarrow> string option
     \<Rightarrow> string option \<Rightarrow> string option \<Rightarrow> string option prog" where
  "sync_repo w g = sync_repo_with (sync_module_components w g) w g"

lemma py_split_nonempty: "py_split c s \<noteq> []"
  by (induction s) (auto split: list.splits)

lemma py_split1_no_sep:
  "c \<notin> set s \<Longrightarrow> py_split1 c s = [s]"
  by (simp add: py_split1_def Let_def dropWhile_eq_Nil_conv takeWhile_eq_all_conv)

lemma py_split1_sep:
  "c \<notin> set h \<Longrightarrow> py_split1 c (h @ c # r) = [h, r]"
proof -
  assume a: "c \<notin> set h"
  then have t: "takeWhile (\<lambda>x. x \<noteq> c) (h @ c # r) = h"
    by (induction h) auto
  from a have d: "dropWhile (\<lambda>x. x \<noteq> c) (h @ c # r) = c # r"
    by (induction h) auto
  show ?thesis
    by (simp only: py_split1_def Let_def t d) simp
qed


text \<open>
  C9: SCMRef parsing round-trips. For every string \<open>link#ref\<close> (the link is the part before
  the first \<open>#\<close>, so it holds none), \<open>split_scmurl\<close> returns that link and that ref, and
  serialising them as \<^verbatim>\<open><link>#<ref>\<close> gives the input back; for every input without
  \<open>#\<close> the ref is absent and serialising the bare link gives the input back.
\<close>

theorem split_scmurl_roundtrip:
  "(CHR ''#'' \<notin> set l \<longrightarrow>
      scm_link (split_scmurl (l @ ''#'' @ r)) = l
    \<and> scm_ref (split_scmurl (l @ ''#'' @ r)) = Some r
    \<and> format_scmurl (scm_link (split_scmurl (l @ ''#'' @ r)))
          (scm_ref (split_scmurl (l @ ''#'' @ r))) = l @ ''#'' @ r)
  \<and> (CHR ''#'' \<notin> set s \<longrightarrow>
      scm_ref (split_scmurl s) = None
    \<and> scm_link (split_scmurl s) = s
    \<and> format_scmurl (scm_link (split_scmurl s)) (scm_ref (split_scmurl s)) = s)"
proof (intro conjI impI)
  assume a: "CHR ''#'' \<notin> set l"
  have sp: "py_split1 (CHR ''#'') (l @ ''#'' @ r) = [l, r]"
    using py_split1_sep [OF a, of r] by simp
  show l: "scm_link (split_scmurl (l @ ''#'' @ r)) = l"
    by (simp only: split_scmurl_def Let_def sp) simp
  show r: "scm_ref (split_scmurl (l @ ''#'' @ r)) = Some r"
    by (simp only: split_scmurl_def Let_def sp) simp
  show "format_scmurl (scm_link (split_scmurl (l @ ''#'' @ r)))
          (scm_ref (split_scmurl (l @ ''#'' @ r))) = l @ ''#'' @ r"
    by (simp only: l r) (simp add: format_scmurl_def)
next
  assume a: "CHR ''#'' \<notin> set s"
  have sp: "py_split1 (CHR ''#'') s = [s]"
    by (rule py_split1_no_sep [OF a])
  show r: "scm_ref (split_scmurl s) = None"
    by (simp only: split_scmurl_def Let_def sp) simp
  show l: "scm_link (split_scmurl s) = s"
    by (simp only: split_scmurl_def Let_def sp) simp
  show "format_scmurl (scm_link (split_scmurl s)) (scm_ref (split_scmurl s)) = s"
    by (simp only: l r) (simp add: format_scmurl_def)
qed

theorem split_scmurl_roundtrip_witness:
  "CHR ''#'' \<notin> set ''https://src.example.org/rpms/foo''
   \<and> scm_link (split_scmurl ''https://src.example.org/rpms/foo#f33'') = ''https://src.example.org/rpms/foo''
   \<and> scm_ref (split_scmurl ''https://src.example.org/rpms/foo#f33'') = Some ''f33''
   \<and> format_scmurl (scm_link (split_scmurl ''https://src.example.org/rpms/foo#f33''))
         (scm_ref (split_scmurl ''https://src.example.org/rpms/foo#f33''))
       = ''https://src.example.org/rpms/foo#f33''
   \<and> scm_ref (split_scmurl ''https://src.example.org/rpms/foo'') = None
   \<and> format_scmurl (scm_link (split_scmurl ''https://src.example.org/rpms/foo''))
         (scm_ref (split_scmurl ''https://src.example.org/rpms/foo''))
       = ''https://src.example.org/rpms/foo''"
  using split_scmurl_roundtrip [of "''https://src.example.org/rpms/foo''" "''f33''"
      "''https://src.example.org/rpms/foo''"]
  by (simp add: format_scmurl_def)


section \<open>Properties of parse_sources\<close>

lemma py_lines_no_lf: "l \<in> set (py_lines t) \<Longrightarrow> CHR 0x0A \<notin> set (butlast l)"
  by (induction t arbitrary: l) (auto split: if_splits list.splits)

lemma py_rstrip_decomp: "s = py_rstrip s @ rev (takeWhile py_isspace (rev s))"
proof -
  have "rev (dropWhile py_isspace (rev s)) @ rev (takeWhile py_isspace (rev s))
        = rev (takeWhile py_isspace (rev s) @ dropWhile py_isspace (rev s))"
    by (simp only: rev_append)
  also have "\<dots> = s"
    by (simp only: takeWhile_dropWhile_id rev_rev_ident)
  finally show ?thesis
    by (simp only: py_rstrip_def)
qed

lemma py_rstrip_last: "py_rstrip s \<noteq> [] \<Longrightarrow> \<not> py_isspace (last (py_rstrip s))"
proof -
  assume a: "py_rstrip s \<noteq> []"
  then have ne: "dropWhile py_isspace (rev s) \<noteq> []"
    by (simp add: py_rstrip_def)
  then have "\<not> py_isspace (hd (dropWhile py_isspace (rev s)))"
    by (rule hd_dropWhile)
  with ne show ?thesis
    by (simp add: py_rstrip_def last_rev)
qed

lemma py_rstrip_no_lf:
  assumes l: "l \<in> set (py_lines t)"
  shows "CHR 0x0A \<notin> set (py_rstrip l)"
proof (cases "py_rstrip l = []")
  case True
  then show ?thesis by simp
next
  case ne: False
  define w where "w = rev (takeWhile py_isspace (rev l))"
  have lw: "l = py_rstrip l @ w"
    unfolding w_def by (rule py_rstrip_decomp)
  have bl: "CHR 0x0A \<notin> set (butlast l)"
    by (rule py_lines_no_lf [OF l])
  show ?thesis
  proof (cases "w = []")
    case True
    with lw have eq: "l = py_rstrip l" by simp
    have "\<not> py_isspace (last (py_rstrip l))"
      by (rule py_rstrip_last [OF ne])
    then have "last (py_rstrip l) \<noteq> CHR 0x0A"
      by (auto simp: py_isspace_def)
    moreover have "py_rstrip l = butlast (py_rstrip l) @ [last (py_rstrip l)]"
      using ne by simp
    then have "set (py_rstrip l) = insert (last (py_rstrip l)) (set (butlast (py_rstrip l)))"
      by (metis Un_insert_right list.simps(15) set_append sup_bot.right_neutral empty_set)
    ultimately show ?thesis
      using bl eq by auto
  next
    case False
    then have "butlast (py_rstrip l @ w) = py_rstrip l @ butlast w"
      by (simp add: butlast_append)
    with lw have "butlast l = py_rstrip l @ butlast w" by simp
    with bl show ?thesis by auto
  qed
qed


lemma takeWhile_sre_dot: "CHR 0x0A \<notin> set s \<Longrightarrow> takeWhile sre_dot s = s"
  by (simp add: takeWhile_eq_all_conv sre_dot_def) auto

lemma dropWhile_sre_dot: "CHR 0x0A \<notin> set s \<Longrightarrow> dropWhile sre_dot s = []"
  by (simp add: dropWhile_eq_Nil_conv sre_dot_def) auto

lemma sre_md5_sound:
  assumes "sre_md5 s = Some (f, h, rest)"
  shows "s = h @ ''  '' @ f @ rest \<and> length h = 32 \<and> list_all sre_class h \<and> f \<noteq> []"
proof -
  from assms have h: "h = take 32 s" and l: "length (take 32 s) = 32"
    and c: "list_all sre_class (take 32 s)" and sp: "take 2 (drop 32 s) = ''  ''"
    and f: "f = takeWhile sre_dot (drop 2 (drop 32 s))" and ne: "f \<noteq> []"
    and r: "rest = dropWhile sre_dot (drop 2 (drop 32 s))"
    by (auto simp: sre_md5_def Let_def split: if_splits)
  have "s = take 32 s @ drop 32 s"
    by (simp only: append_take_drop_id)
  also have "drop 32 s = take 2 (drop 32 s) @ drop 2 (drop 32 s)"
    by (simp only: append_take_drop_id)
  also have "drop 2 (drop 32 s) = f @ rest"
    by (simp only: f r takeWhile_dropWhile_id)
  finally have "s = h @ ''  '' @ f @ rest" by (simp only: h sp)
  with h l c ne show ?thesis by simp
qed

lemma sre_md5_complete:
  assumes "spec_md5_line s f h" and nl: "CHR 0x0A \<notin> set s"
  shows "sre_md5 s = Some (f, h, [])"
proof -
  from assms have s: "s = h @ ''  '' @ f" and l: "length h = 32"
    and c: "list_all sre_class h" and ne: "f \<noteq> []"
    by (auto simp: spec_md5_line_def)
  from nl s have nf: "CHR 0x0A \<notin> set f" by auto
  have t: "take 32 s = h" and d: "drop 32 s = ''  '' @ f"
    using s l by auto
  show ?thesis
    by (simp add: sre_md5_def Let_def t d l c ne takeWhile_sre_dot [OF nf]
        dropWhile_sre_dot [OF nf])
qed

lemma sre_md5_not_sha512: "sre_md5 s = Some m \<Longrightarrow> take 8 s \<noteq> ''SHA512 (''"
proof
  assume a: "sre_md5 s = Some m" and b: "take 8 s = ''SHA512 (''"
  from a have l: "length (take 32 s) = 32" and c: "list_all sre_class (take 32 s)"
    by (auto simp: sre_md5_def Let_def split: if_splits)
  from b obtain t where s: "s = CHR ''S'' # t"
    by (cases s) auto
  with c have "sre_class (CHR ''S'')" by simp
  then show False by (simp add: sre_class_def)
qed

lemma sre_sha512_try_sound:
  "sre_sha512_try r n = Some (f, h, rest) \<Longrightarrow>
     r = f @ '') = '' @ h @ rest \<and> length h = 128 \<and> list_all sre_class h \<and> f \<noteq> []"
proof (induction n)
  case 0
  then show ?case by simp
next
  case (Suc n)
  show ?case
  proof (cases "take 4 (drop (Suc n) r) = '') = '' \<and> length (take 128 (drop (Suc n + 4) r)) = 128
      \<and> list_all sre_class (take 128 (drop (Suc n + 4) r))")
    case True
    with Suc.prems have f: "f = take (Suc n) r" and h: "h = take 128 (drop (Suc n + 4) r)"
      and rest: "rest = drop (Suc n + 4 + 128) r"
      by (auto simp: Let_def)
    from True have t4: "take 4 (drop (Suc n) r) = '') = ''" by simp
    have d4: "drop 4 (drop (Suc n) r) = drop (Suc n + 4) r"
      by (simp add: add.commute)
    have d128: "drop 128 (drop (Suc n + 4) r) = drop (Suc n + 4 + 128) r"
      by (simp add: add.commute)
    have "r = take (Suc n) r @ drop (Suc n) r"
      by (simp only: append_take_drop_id)
    also have "drop (Suc n) r = take 4 (drop (Suc n) r) @ drop 4 (drop (Suc n) r)"
      by (simp only: append_take_drop_id)
    also have "drop 4 (drop (Suc n) r)
        = take 128 (drop (Suc n + 4) r) @ drop 128 (drop (Suc n + 4) r)"
      by (simp only: d4 append_take_drop_id)
    finally have "r = f @ '') = '' @ h @ rest"
      by (simp only: f h rest t4 d128)
    moreover from t4 have "r \<noteq> []" by auto
    then have "f \<noteq> []" by (simp add: f)
    ultimately show ?thesis using True h by simp
  next
    case False
    with Suc.prems have "sre_sha512_try r n = Some (f, h, rest)"
      by (auto simp: Let_def split: if_splits)
    then show ?thesis by (rule Suc.IH)
  qed
qed

lemma sre_sha512_try_complete:
  assumes r: "r = f @ '') = '' @ h" and l: "length h = 128" and c: "list_all sre_class h"
    and ne: "f \<noteq> []"
  shows "length f \<le> n \<Longrightarrow> sre_sha512_try r n = Some (f, h, [])"
proof (induction n)
  case 0
  with ne show ?case by simp
next
  case (Suc n)
  show ?case
  proof (cases "length f = Suc n")
    case True
    have "drop (Suc n) r = '') = '' @ h" using r True by simp
    moreover have "drop (Suc n + 4) r = h" using r True by simp
    moreover have "take (Suc n) r = f" using r True by simp
    moreover have "drop (Suc n + 4 + 128) r = []" using r True l by simp
    ultimately show ?thesis
      using l c by (simp add: Let_def)
  next
    case False
    with Suc.prems have le: "length f \<le> n" by simp
    have "length (drop (Suc n + 4) r) < 128"
      using r l le by simp
    then have "length (take 128 (drop (Suc n + 4) r)) \<noteq> 128"
      by simp
    then have "sre_sha512_try r (Suc n) = sre_sha512_try r n"
      unfolding sre_sha512_try.simps Let_def by (simp only: simp_thms if_False)
    with Suc.IH [OF le] show ?thesis by simp
  qed
qed

lemma sre_match_sound:
  assumes m: "sre_match s = Some (f, h)" and nl: "CHR 0x0A \<notin> set s"
  shows "spec_entry_line s f h"
proof (cases "sre_md5 s")
  case (Some m1)
  obtain f1 h1 rest where m1: "m1 = (f1, h1, rest)" by (cases m1) auto
  from sre_md5_sound [OF Some [unfolded m1]]
  have s: "s = h1 @ ''  '' @ f1 @ rest" and p: "length h1 = 32" "list_all sre_class h1" "f1 \<noteq> []"
    by simp_all
  from nl s have "rest \<noteq> [CHR 0x0A]" by auto
  with m Some m1 have "rest = []" "f = f1" "h = h1"
    by (auto simp: sre_match_def split: if_splits)
  with s p show ?thesis
    by (simp add: spec_entry_line_def spec_md5_line_def)
next
  case None
  with m obtain rest where sh: "sre_sha512 s = Some (f, h, rest)"
    and e: "rest = [] \<or> rest = [CHR 0x0A]"
    by (auto simp: sre_match_def split: option.splits if_splits)
  from sh have t8: "take 8 s = ''SHA512 (''"
    and tr: "sre_sha512_try (drop 8 s) (length (takeWhile sre_dot (drop 8 s))) = Some (f, h, rest)"
    by (auto simp: sre_sha512_def split: if_splits)
  from sre_sha512_try_sound [OF tr]
  have d: "drop 8 s = f @ '') = '' @ h @ rest" and p: "length h = 128" "list_all sre_class h" "f \<noteq> []"
    by simp_all
  have "s = take 8 s @ drop 8 s" by simp
  then have s: "s = ''SHA512 ('' @ f @ '') = '' @ h @ rest"
    by (simp only: t8 d)
  with nl have "rest \<noteq> [CHR 0x0A]" by auto
  with e have "rest = []" by simp
  with s p show ?thesis
    by (simp add: spec_entry_line_def spec_sha512_line_def)
qed

lemma sre_match_complete:
  assumes e: "spec_entry_line s f h" and nl: "CHR 0x0A \<notin> set s"
  shows "sre_match s = Some (f, h)"
proof -
  from e consider (md5) "spec_md5_line s f h" | (sha) "spec_sha512_line s f h"
    by (auto simp: spec_entry_line_def)
  then show ?thesis
  proof cases
    case md5
    from sre_md5_complete [OF md5 nl] show ?thesis
      by (simp add: sre_match_def)
  next
    case sha
    then have s: "s = ''SHA512 ('' @ f @ '') = '' @ h" and l: "length h = 128"
      and c: "list_all sre_class h" and ne: "f \<noteq> []"
      by (auto simp: spec_sha512_line_def)
    have t8: "take 8 s = ''SHA512 (''" and d8: "drop 8 s = f @ '') = '' @ h"
      using s by simp_all
    have no: "sre_md5 s = None"
      using sre_md5_not_sha512 [of s] t8 by (cases "sre_md5 s") auto
    from nl have "CHR 0x0A \<notin> set (drop 8 s)"
      by (auto dest: in_set_dropD)
    then have tw: "takeWhile sre_dot (drop 8 s) = drop 8 s"
      by (rule takeWhile_sre_dot)
    have "length f \<le> length (drop 8 s)"
      by (simp add: d8)
    from sre_sha512_try_complete [OF d8 l c ne this]
    have "sre_sha512 s = Some (f, h, [])"
      by (simp add: sre_sha512_def t8 tw)
    with no show ?thesis
      by (simp add: sre_match_def)
  qed
qed


lemma parse_lines_None:
  "\<exists>l\<in>set ls. sre_match (py_rstrip l) = None \<Longrightarrow> parse_lines ls src = None"
  by (induction ls arbitrary: src) (auto split: option.splits)

text \<open>The entry that \<open>parse_lines\<close> adds for a line that matches.\<close>

definition entry_of :: "string \<Rightarrow> source_entry" where
  "entry_of l = (case the (sre_match (py_rstrip l)) of
                   (f, h) \<Rightarrow> (f, h, if length h = 128 then ''sha512'' else ''md5''))"

lemma parse_lines_Some:
  "\<forall>l\<in>set ls. sre_match (py_rstrip l) \<noteq> None \<Longrightarrow>
     parse_lines ls src = Some (src \<union> entry_of ` set ls)"
proof (induction ls arbitrary: src)
  case Nil
  then show ?case by simp
next
  case (Cons l ls)
  from Cons.prems obtain f h where m: "sre_match (py_rstrip l) = Some (f, h)"
    by auto
  from Cons.prems have "\<forall>l\<in>set ls. sre_match (py_rstrip l) \<noteq> None"
    by simp
  from Cons.IH [OF this] m show ?case
    by (simp add: entry_of_def)
qed

lemma spec_entry_line_length:
  "spec_entry_line s f h \<Longrightarrow> length h = 32 \<or> length h = 128"
  by (auto simp: spec_entry_line_def spec_md5_line_def spec_sha512_line_def)

text \<open>
  C7: \<open>parse_sources\<close> returns the empty set when the file is missing. The lines of a file
  are taken with their trailing whitespace stripped, as the code does before matching. When
  every line of the file has one of the two accepted formats, the result is the set of the
  tuples (filename, hash, hashtype) of its lines, where the hashtype is \<open>md5\<close> exactly for a
  hash of 32 characters and \<open>sha512\<close> exactly for one of 128. When some non-empty line has
  neither format, the result is the error value.
\<close>

theorem parse_sources_spec:
  "parse_sources NoFile = Some {}
   \<and> ((\<forall>l\<in>set (py_lines (universal_newlines t)). \<exists>f h. spec_entry_line (py_rstrip l) f h) \<longrightarrow>
        parse_sources (Content t) =
          Some {(f, h, ty). (\<exists>l\<in>set (py_lines (universal_newlines t)). spec_entry_line (py_rstrip l) f h)
                  \<and> (length h = 32 \<and> ty = ''md5'' \<or> length h = 128 \<and> ty = ''sha512'')})
   \<and> ((\<exists>l\<in>set (py_lines (universal_newlines t)).
          py_rstrip l \<noteq> [] \<and> (\<forall>f h. \<not> spec_entry_line (py_rstrip l) f h)) \<longrightarrow>
        parse_sources (Content t) = None)"
proof (intro conjI impI)
  show "parse_sources NoFile = Some {}"
    by (simp add: parse_sources_def)
next
  let ?ls = "py_lines (universal_newlines t)"
  assume a: "\<forall>l\<in>set ?ls. \<exists>f h. spec_entry_line (py_rstrip l) f h"
  have m: "sre_match (py_rstrip l) = Some (f, h) \<longleftrightarrow> spec_entry_line (py_rstrip l) f h"
    if "l \<in> set ?ls" for l f h
    using sre_match_sound [OF _ py_rstrip_no_lf [OF that]]
      sre_match_complete [OF _ py_rstrip_no_lf [OF that]] by blast
  have all: "\<forall>l\<in>set ?ls. sre_match (py_rstrip l) \<noteq> None"
  proof
    fix l assume l: "l \<in> set ?ls"
    with a obtain f h where "spec_entry_line (py_rstrip l) f h" by blast
    with m [OF l, of f h] have "sre_match (py_rstrip l) = Some (f, h)" by simp
    then show "sre_match (py_rstrip l) \<noteq> None" by simp
  qed
  have "entry_of ` set ?ls =
      {(f, h, ty). (\<exists>l\<in>set ?ls. spec_entry_line (py_rstrip l) f h)
         \<and> (length h = 32 \<and> ty = ''md5'' \<or> length h = 128 \<and> ty = ''sha512'')}"
    (is "?L = ?R")
  proof (intro set_eqI iffI)
    fix e assume "e \<in> ?L"
    then obtain l where l: "l \<in> set ?ls" and e: "e = entry_of l" by auto
    from all l obtain f h where s: "sre_match (py_rstrip l) = Some (f, h)" by auto
    with m [OF l, of f h] have sp: "spec_entry_line (py_rstrip l) f h" by simp
    from e s have "e = (f, h, if length h = 128 then ''sha512'' else ''md5'')"
      by (simp add: entry_of_def)
    with sp l spec_entry_line_length [OF sp] show "e \<in> ?R" by auto
  next
    fix e assume "e \<in> ?R"
    then obtain f h ty l where e: "e = (f, h, ty)" and l: "l \<in> set ?ls"
      and sp: "spec_entry_line (py_rstrip l) f h"
      and ty: "length h = 32 \<and> ty = ''md5'' \<or> length h = 128 \<and> ty = ''sha512''"
      by auto
    from m [OF l, of f h] sp have "sre_match (py_rstrip l) = Some (f, h)" by simp
    with ty have "entry_of l = e"
      by (auto simp: entry_of_def e)
    with l show "e \<in> ?L" by auto
  qed
  with parse_lines_Some [OF all, of "{}"]
  show "parse_sources (Content t) = Some ?R"
    by (simp add: parse_sources_def)
next
  let ?ls = "py_lines (universal_newlines t)"
  assume "\<exists>l\<in>set ?ls. py_rstrip l \<noteq> [] \<and> (\<forall>f h. \<not> spec_entry_line (py_rstrip l) f h)"
  then obtain l where l: "l \<in> set ?ls" and n: "\<forall>f h. \<not> spec_entry_line (py_rstrip l) f h"
    by blast
  have "sre_match (py_rstrip l) = None"
  proof (cases "sre_match (py_rstrip l)")
    case None then show ?thesis .
  next
    case (Some fh)
    obtain f h where "fh = (f, h)" by (cases fh) auto
    with Some sre_match_sound [OF _ py_rstrip_no_lf [OF l]] n show ?thesis by blast
  qed
  with l have "\<exists>l\<in>set ?ls. sre_match (py_rstrip l) = None" by blast
  from parse_lines_None [OF this] show "parse_sources (Content t) = None"
    by (simp add: parse_sources_def)
qed

text \<open>
  C10: a sources file with a line that is empty once its trailing whitespace is stripped (a
  blank line between two entries, say) is not parsed: \<open>parse_sources\<close> returns the error
  value instead of skipping the line.
\<close>

theorem parse_sources_blank_line:
  "l \<in> set (py_lines (universal_newlines t)) \<Longrightarrow> py_rstrip l = [] \<Longrightarrow>
     parse_sources (Content t) = None"
proof -
  assume l: "l \<in> set (py_lines (universal_newlines t))" and e: "py_rstrip l = []"
  have "sre_match [] = None"
    by (simp add: sre_match_def sre_md5_def sre_sha512_def)
  with e have "sre_match (py_rstrip l) = None"
    by simp
  with l have "\<exists>l\<in>set (py_lines (universal_newlines t)). sre_match (py_rstrip l) = None"
    by (rule bexI [rotated])
  from parse_lines_None [OF this] show ?thesis
    by (simp add: parse_sources_def)
qed


text \<open>Example files: two entries with \<open>CR LF\<close> and \<open>LF\<close> line ends, and the same with a blank line.\<close>

definition example_md5 :: string where
  "example_md5 = ''acbd18db4cc2f85cedef654fccc4a4d8''"

definition example_sha512 :: string where
  "example_sha512 = ''d82c4eb5261cb9c8aa9855edd67d1bd10482f41529858d925094d173fa662aa91ff39bc5b188615273484021dfb16fd8284cf684ccf0fc795be3aa2fc1e6c181''"

definition example_sources :: string where
  "example_sources = example_md5 @ ''  foo.tar.gz'' @ [CHR 0x0D, CHR 0x0A]
     @ ''SHA512 (bar.tar.xz) = '' @ example_sha512 @ [CHR 0x0A]"

definition example_blank_sources :: string where
  "example_blank_sources = example_md5 @ ''  foo.tar.gz'' @ [CHR 0x0A, CHR 0x0A]
     @ ''SHA512 (bar.tar.xz) = '' @ example_sha512 @ [CHR 0x0A]"

lemma example_lines:
  "py_lines (universal_newlines example_sources)
     = [example_md5 @ ''  foo.tar.gz'' @ [CHR 0x0A],
        ''SHA512 (bar.tar.xz) = '' @ example_sha512 @ [CHR 0x0A]]"
  by (simp add: example_sources_def example_md5_def example_sha512_def)

lemma example_blank_lines:
  "py_lines (universal_newlines example_blank_sources)
     = [example_md5 @ ''  foo.tar.gz'' @ [CHR 0x0A], [CHR 0x0A],
        ''SHA512 (bar.tar.xz) = '' @ example_sha512 @ [CHR 0x0A]]"
  by (simp add: example_blank_sources_def example_md5_def example_sha512_def)

lemma example_rstrip:
  "py_rstrip (example_md5 @ ''  foo.tar.gz'' @ [CHR 0x0A]) = example_md5 @ ''  foo.tar.gz''"
  "py_rstrip (''SHA512 (bar.tar.xz) = '' @ example_sha512 @ [CHR 0x0A])
     = ''SHA512 (bar.tar.xz) = '' @ example_sha512"
  "py_rstrip [CHR 0x0A] = []"
  by (simp_all add: example_md5_def example_sha512_def py_rstrip_def py_isspace_def)

lemma example_entries:
  "spec_entry_line (example_md5 @ ''  foo.tar.gz'') ''foo.tar.gz'' example_md5"
  "spec_entry_line (''SHA512 (bar.tar.xz) = '' @ example_sha512) ''bar.tar.xz'' example_sha512"
  by (simp_all add: spec_entry_line_def spec_md5_line_def spec_sha512_line_def
      example_md5_def example_sha512_def sre_class_def)

lemma garbage_no_entry: "\<not> spec_entry_line ''garbage'' f h"
proof
  assume "spec_entry_line ''garbage'' f h"
  then have "sre_match ''garbage'' = Some (f, h)"
    by (rule sre_match_complete) simp
  then show False
    by (simp add: sre_match_def sre_md5_def sre_sha512_def)
qed

lemma example_no_lf:
  "CHR 0x0A \<notin> set (example_md5 @ ''  foo.tar.gz'')"
  "CHR 0x0A \<notin> set (''SHA512 (bar.tar.xz) = '' @ example_sha512)"
  by (simp_all add: example_md5_def example_sha512_def)

lemma example_entry_unique:
  "spec_entry_line (example_md5 @ ''  foo.tar.gz'') f h
     \<longleftrightarrow> f = ''foo.tar.gz'' \<and> h = example_md5"
  "spec_entry_line (''SHA512 (bar.tar.xz) = '' @ example_sha512) f h
     \<longleftrightarrow> f = ''bar.tar.xz'' \<and> h = example_sha512"
proof -
  show "spec_entry_line (example_md5 @ ''  foo.tar.gz'') f h
     \<longleftrightarrow> f = ''foo.tar.gz'' \<and> h = example_md5"
  proof
    assume "spec_entry_line (example_md5 @ ''  foo.tar.gz'') f h"
    from sre_match_complete [OF this example_no_lf(1)]
      sre_match_complete [OF example_entries(1) example_no_lf(1)]
    show "f = ''foo.tar.gz'' \<and> h = example_md5" by simp
  next
    assume "f = ''foo.tar.gz'' \<and> h = example_md5"
    with example_entries(1) show "spec_entry_line (example_md5 @ ''  foo.tar.gz'') f h"
      by simp
  qed
  show "spec_entry_line (''SHA512 (bar.tar.xz) = '' @ example_sha512) f h
     \<longleftrightarrow> f = ''bar.tar.xz'' \<and> h = example_sha512"
  proof
    assume "spec_entry_line (''SHA512 (bar.tar.xz) = '' @ example_sha512) f h"
    from sre_match_complete [OF this example_no_lf(2)]
      sre_match_complete [OF example_entries(2) example_no_lf(2)]
    show "f = ''bar.tar.xz'' \<and> h = example_sha512" by simp
  next
    assume "f = ''bar.tar.xz'' \<and> h = example_sha512"
    with example_entries(2)
    show "spec_entry_line (''SHA512 (bar.tar.xz) = '' @ example_sha512) f h"
      by simp
  qed
qed

theorem parse_sources_spec_witness:
  "parse_sources (Content example_sources) =
       Some {(''foo.tar.gz'', example_md5, ''md5''), (''bar.tar.xz'', example_sha512, ''sha512'')}
   \<and> parse_sources (Content (''garbage'' @ [CHR 0x0A])) = None"
proof -
  have h1: "\<forall>l\<in>set (py_lines (universal_newlines example_sources)).
       \<exists>f h. spec_entry_line (py_rstrip l) f h"
  proof (simp only: example_lines list.set ball_simps example_rstrip, intro conjI)
    show "\<exists>f h. spec_entry_line (example_md5 @ ''  foo.tar.gz'') f h"
      using example_entries(1) by blast
    show "\<exists>f h. spec_entry_line (''SHA512 (bar.tar.xz) = '' @ example_sha512) f h"
      using example_entries(2) by blast
  qed simp
  have g: "py_rstrip (''garbage'' @ [CHR 0x0A]) = ''garbage''"
    by (simp add: py_rstrip_def py_isspace_def)
  have h2: "\<exists>l\<in>set (py_lines (universal_newlines (''garbage'' @ [CHR 0x0A]))).
         py_rstrip l \<noteq> [] \<and> (\<forall>f h. \<not> spec_entry_line (py_rstrip l) f h)"
    using garbage_no_entry g by simp
  have len: "length example_md5 = 32" "length example_sha512 = 128"
    by (simp_all add: example_md5_def example_sha512_def)
  have "{(f, h, ty).
         (\<exists>l\<in>set (py_lines (universal_newlines example_sources)).
             spec_entry_line (py_rstrip l) f h)
         \<and> (length h = 32 \<and> ty = ''md5'' \<or> length h = 128 \<and> ty = ''sha512'')}
      = {(''foo.tar.gz'', example_md5, ''md5''), (''bar.tar.xz'', example_sha512, ''sha512'')}"
    by (simp only: example_lines list.set bex_simps example_rstrip example_entry_unique)
       (auto simp: len)
  with h1 h2 parse_sources_spec [of example_sources]
    parse_sources_spec [of "''garbage'' @ [CHR 0x0A]"]
  show ?thesis by simp
qed

theorem parse_sources_blank_line_witness:
  "[CHR 0x0A] \<in> set (py_lines (universal_newlines example_blank_sources))
   \<and> py_rstrip [CHR 0x0A] = []
   \<and> parse_sources (Content example_blank_sources) = None"
  using parse_sources_blank_line [of "[CHR 0x0A]" example_blank_sources]
  by (simp add: example_blank_lines example_rstrip)

section \<open>Properties of load_config\<close>

text \<open>What the loader builds from the example document.\<close>

definition example_config :: config where
  "example_config =
     \<lparr>c_main =
         \<lparr>main_source =
            \<lparr>ep_scm = ''https://src.example.org'',
               ep_cache =
                 \<lparr>cache_url = ''https://src.example.org/repo/pkgs'',
                    cache_cgi = ''https://src.example.org/repo/pkgs/upload.cgi'',
                    cache_path =
                      ''%(name)s/%(filename)s/%(hashtype)s/%(hash)s/%(filename)s''\<rparr>,
               ep_profile = ''koji'', ep_mbs = None\<rparr>,
            main_destination =
              \<lparr>ep_scm = ''ssh://pkgs.example.com'',
                 ep_cache =
                   \<lparr>cache_url = ''https://pkgs.example.com/repo/pkgs'',
                      cache_cgi =
                        ''https://pkgs.example.com/repo/pkgs/upload.cgi'',
                      cache_path =
                        ''%(name)s/%(filename)s/%(hashtype)s/%(hash)s/%(filename)s''\<rparr>,
                 ep_profile = ''brew'',
                 ep_mbs =
                   Some
                    [(''auth_method'', PStr ''kerberos''),
                     (''api_url'',
                      PStr ''https://mbs.example.com/module-build-service/1'')]\<rparr>,
            main_trigger =
              \<lparr>trigger_rpms = Some ''rawhide'',
                 trigger_modules = Some ''rawhide-modular''\<rparr>,
            main_build =
              \<lparr>build_prefix = ''git+https://pkgs.example.com'',
                 build_target = ''fluff-candidate'',
                 build_platform = ''platform:f33'', build_scratch = False\<rparr>,
            main_git =
              \<lparr>git_author = ''DistroBaker'', git_email = ''noreply@example.com'',
                 git_message = ''Merged update from upstream sources''\<rparr>,
            main_control =
              \<lparr>control_build = True, control_merge = True,
                 control_strict = False,
                 exclude_rpms = {PStr ''firefox'', PStr ''kernel''},
                 exclude_modules = {}\<rparr>,
            main_defaults =
              \<lparr>defaults_cache =
                 \<lparr>sd_source = Some ''%(component)s'',
                    sd_destination = Some ''fluff-%(component)s''\<rparr>,
                 defaults_rpms =
                   \<lparr>sd_source = Some ''%(component)s.git'',
                      sd_destination = Some ''%(component)s.git#fluff''\<rparr>,
                 defaults_modules =
                   \<lparr>sd_source = Some ''%(component)s.git#%(stream)s'',
                      sd_destination =
                        Some ''%(component)s.git#%(stream)s-fluff''\<rparr>,
                 defaults_modules_rpms =
                   \<lparr>psd_source = PStr ''%(component)s.git'',
                      psd_destination = PStr ''%(component)s.git#fluff''\<rparr>\<rparr>\<rparr>,
         c_comps_rpms =
           [(''gzip'',
             \<lparr>comp_source = ''gzip.git'',
                comp_destination = ''gzip.git#fluff-2.0'',
                comp_cache_source = ''gzip'',
                comp_cache_destination = ''gzip-fluff'', comp_rpms = []\<rparr>),
            (''ipa'',
             \<lparr>comp_source = ''ipa.git'', comp_destination = ''ipa.git#fluff'',
                comp_cache_source = ''ipa'',
                comp_cache_destination = ''fluff-ipa'', comp_rpms = []\<rparr>)],
         c_comps_modules =
           [(''testmodule:master'',
             \<lparr>comp_source = ''testmodule.git#master'',
                comp_destination = ''testmodule-fluff.git#stream-fluff'',
                comp_cache_source = ''testmodule'',
                comp_cache_destination = ''fluff-testmodule'',
                comp_rpms =
                  [(''componentrpm'',
                    \<lparr>psd_source = PStr ''componentrpm.git'',
                       psd_destination =
                         PStr ''componentrpm-fluff.git#%(ref)s''\<rparr>)]\<rparr>)]\<rparr>"

definition example_url :: string where
  "example_url = ''https://cfg.example.com/distrobaker.git''"

text \<open>The example document without \<^verbatim>\<open>trigger.rpms\<close>, and without \<^verbatim>\<open>build.platform\<close>.\<close>

definition example_no_trigger_rpms :: pyval where
  "example_no_trigger_rpms =
     example_document (PDict [(''modules'', PStr ''rawhide-modular'')]) example_defaults"

definition example_no_platform :: pyval where
  "example_no_platform =
     PDict [
       (''configuration'', PDict [
          (''source'', PDict [
             (''scm'', PStr ''https://src.example.org''),
             (''cache'', example_cache ''src.example.org''),
             (''profile'', PStr ''koji'')]),
          (''destination'', PDict [
             (''scm'', PStr ''ssh://pkgs.example.com''),
             (''cache'', example_cache ''pkgs.example.com''),
             (''profile'', PStr ''brew''),
             (''mbs'', PDict [
                (''auth_method'', PStr ''kerberos''),
                (''api_url'', PStr ''https://mbs.example.com/module-build-service/1'')])]),
          (''trigger'', example_trigger),
          (''build'', PDict [
             (''prefix'', PStr ''git+https://pkgs.example.com''),
             (''target'', PStr ''fluff-candidate'')])])]"

lemma example_build_config:
  "build_config (\<lambda>m. True) (example_document example_trigger example_defaults) = Value example_config"
  by code_simp

lemma example_no_platform_fails:
  "build_config (\<lambda>m. True) example_no_platform = ReturnNone"
  by code_simp

lemma example_clone:
  "attempts (repo_clone (example_repo y) (scm_link (split_scmurl example_url))
      (case scm_ref (split_scmurl example_url) of None \<Rightarrow> ''master'' | Some r \<Rightarrow> r)) 0 (nat 3)"
  "\<not> attempts (repo_clone (example_repo y) (scm_link (split_scmurl example_url))
      (case scm_ref (split_scmurl example_url) of None \<Rightarrow> ''master'' | Some r \<Rightarrow> r)) 0 (nat 1)"
  by (simp_all add: example_repo_def example_url_def split_scmurl_def py_split1_def
      eval_nat_numeral)

text \<open>
  The failures after which the global configuration is what it was before the call:
  whenever \<open>load_config\<close> does not return a configuration (it returned \<^verbatim>\<open>None\<close> or raised),
  the global configuration is unchanged, and it is replaced, by the configuration
  returned, only when one is returned. When the clone exhausts its attempts, when
  \<^verbatim>\<open>distrobaker.yaml\<close> is missing or cannot be parsed, or when a validation rule makes the
  loader give up, the function returns \<^verbatim>\<open>None\<close>.
\<close>

lemma load_config_failure_keeps_global:
  assumes "load_config retry repo crepo c = (r, c')"
  shows "((\<forall>n. r \<noteq> Value n) \<longrightarrow> c' = c)
       \<and> (\<forall>n. r = Value n \<longrightarrow> c' = Some n)
       \<and> (repo_tempdir repo
            \<and> (\<not> attempts (repo_clone repo (scm_link (split_scmurl crepo))
                     (case scm_ref (split_scmurl crepo) of None \<Rightarrow> ''master'' | Some x \<Rightarrow> x))
                   0 (nat retry)
               \<or> repo_yaml repo = NoYaml
               \<or> repo_yaml repo = BadYaml
               \<or> (\<exists>y. repo_yaml repo = Yaml y
                      \<and> build_config (repo_importable repo) y = ReturnNone))
           \<longrightarrow> r = ReturnNone \<and> c' = c)"
proof -
  let ?ok = "attempts (repo_clone repo (scm_link (split_scmurl crepo))
      (case scm_ref (split_scmurl crepo) of None \<Rightarrow> ''master'' | Some x \<Rightarrow> x)) 0 (nat retry)"
  let ?none = "repo_tempdir repo \<and> (\<not> ?ok \<or> repo_yaml repo = NoYaml \<or> repo_yaml repo = BadYaml
      \<or> (\<exists>y. repo_yaml repo = Yaml y \<and> build_config (repo_importable repo) y = ReturnNone))"
  have rc: "(r, c') = (Raise RemoteError, c) \<and> \<not> ?none
      \<or> (r, c') = (ReturnNone, c)
      \<or> (\<exists>e. (r, c') = (Raise e, c)) \<and> \<not> ?none
      \<or> (\<exists>n. (r, c') = (Value n, Some n)) \<and> \<not> ?none"
  proof (cases "repo_tempdir repo")
    case False
    with assms show ?thesis by (simp add: load_config_def)
  next
    case tmp: True
    show ?thesis
    proof (cases ?ok)
      case False
      with tmp assms show ?thesis by (simp add: load_config_def Let_def)
    next
      case ok: True
      show ?thesis
      proof (cases "repo_yaml repo")
        case NoYaml
        with tmp ok assms show ?thesis by (simp add: load_config_def Let_def)
      next
        case BadYaml
        with tmp ok assms show ?thesis by (simp add: load_config_def Let_def)
      next
        case (Yaml y)
        show ?thesis
        proof (cases "build_config (repo_importable repo) y")
          case (Value n)
          with tmp ok Yaml assms have "(r, c') = (Value n, Some n)"
            by (simp add: load_config_def Let_def)
          with tmp ok Yaml Value show ?thesis by simp
        next
          case ReturnNone
          with tmp ok Yaml assms show ?thesis by (simp add: load_config_def Let_def)
        next
          case (Raise e)
          with tmp ok Yaml assms have "(r, c') = (Raise e, c)"
            by (simp add: load_config_def Let_def)
          with tmp ok Yaml Raise show ?thesis by simp
        qed
      qed
    qed
  qed
  then show ?thesis
    by (elim disjE conjE exE) auto
qed

lemma load_config_failure_keeps_global_example:
  "load_config 3 (example_repo example_no_platform) example_url (Some example_config)
     = (ReturnNone, Some example_config)
   \<and> load_config 1 (example_repo (example_document example_trigger example_defaults))
       example_url (Some example_config) = (ReturnNone, Some example_config)"
proof -
  obtain r c' where l: "load_config 3 (example_repo example_no_platform) example_url
      (Some example_config) = (r, c')"
    by (cases "load_config 3 (example_repo example_no_platform) example_url (Some example_config)")
  have y: "repo_yaml (example_repo example_no_platform) = Yaml example_no_platform"
    and i: "repo_importable (example_repo example_no_platform) = (\<lambda>m. True)"
    and t: "repo_tempdir (example_repo example_no_platform)"
    by (simp_all add: example_repo_def)
  from load_config_failure_keeps_global [OF l] y i t example_no_platform_fails
  have 1: "r = ReturnNone \<and> c' = Some example_config"
    by simp
  obtain r2 c2 where l2: "load_config 1 (example_repo (example_document example_trigger example_defaults))
       example_url (Some example_config) = (r2, c2)"
    by (cases "load_config 1 (example_repo (example_document example_trigger example_defaults))
       example_url (Some example_config)")
  have t2: "repo_tempdir (example_repo (example_document example_trigger example_defaults))"
    by (simp add: example_repo_def)
  from load_config_failure_keeps_global [OF l2] t2 example_clone(2)
  have 2: "r2 = ReturnNone \<and> c2 = Some example_config"
    by simp
  from 1 2 l l2 show ?thesis by simp
qed

text \<open>
  The example document with the RPM sources moved and without \<^verbatim>\<open>trigger.rpms\<close>, and the
  example document without \<^verbatim>\<open>defaults.rpms.source\<close>. For both the loader logs a
  configuration error.
\<close>

definition example_moved_defaults :: pyval where
  "example_moved_defaults =
     PDict [
       (''cache'', PDict [(''source'', PStr ''%(component)s''),
                          (''destination'', PStr ''fluff-%(component)s'')]),
       (''rpms'', PDict [(''source'', PStr ''elsewhere/%(component)s.git''),
                         (''destination'', PStr ''%(component)s.git#fluff'')]),
       (''modules'', PDict [(''source'', PStr ''%(component)s.git#%(stream)s''),
                            (''destination'', PStr ''%(component)s.git#%(stream)s-fluff'')])]"

definition example_moved_no_trigger_rpms :: pyval where
  "example_moved_no_trigger_rpms =
     example_document (PDict [(''modules'', PStr ''rawhide-modular'')]) example_moved_defaults"

definition example_no_rpms_source :: pyval where
  "example_no_rpms_source =
     example_document example_trigger
       (PDict [
          (''cache'', PDict [(''source'', PStr ''%(component)s''),
                             (''destination'', PStr ''fluff-%(component)s'')]),
          (''rpms'', PDict [(''destination'', PStr ''%(component)s.git#fluff'')]),
          (''modules'', PDict [(''source'', PStr ''%(component)s.git#%(stream)s''),
                               (''destination'', PStr ''%(component)s.git#%(stream)s-fluff'')])])"

text \<open>
  C2: a load that fails on a validation rule must return the error value and leave the
  global configuration, and with it the URLs of every component, as they were. For the
  rules that the loader logs without returning, the code does not. With the example
  configuration in place, loading the document without \<^verbatim>\<open>trigger.rpms\<close> returns a
  configuration and replaces the global one, and the source URL of the component
  \<^verbatim>\<open>bash\<close> changes from \<^verbatim>\<open>rpms/bash.git\<close> to \<^verbatim>\<open>rpms/elsewhere/bash.git\<close>; loading the document
  without \<^verbatim>\<open>defaults.rpms.source\<close> raises \<^verbatim>\<open>KeyError\<close> instead of returning \<^verbatim>\<open>None\<close>.
\<close>

theorem load_config_replaces_after_validation_error:
  "component_scms example_config ''rpms'' ''bash'' None []
     = Inr (Some (\<lparr>scm_link = ''https://src.example.org/rpms/bash.git'', scm_ref = None,
                     scm_ns = Some ''rpms'', scm_comp = Some ''bash.git''\<rparr>,
                  \<lparr>scm_link = ''ssh://pkgs.example.com/rpms/bash.git'', scm_ref = Some ''fluff'',
                     scm_ns = Some ''rpms'', scm_comp = Some ''bash.git''\<rparr>))
   \<and> (case load_config 3 (example_repo example_moved_no_trigger_rpms) example_url
             (Some example_config) of
        (Value n, c') \<Rightarrow>
          c' = Some n \<and> trigger_rpms (main_trigger (c_main n)) = None
          \<and> component_scms n ''rpms'' ''bash'' None []
              = Inr (Some (\<lparr>scm_link = ''https://src.example.org/rpms/elsewhere/bash.git'',
                              scm_ref = None, scm_ns = Some ''elsewhere'',
                              scm_comp = Some ''bash.git''\<rparr>,
                           \<lparr>scm_link = ''ssh://pkgs.example.com/rpms/bash.git'',
                              scm_ref = Some ''fluff'', scm_ns = Some ''rpms'',
                              scm_comp = Some ''bash.git''\<rparr>))
      | _ \<Rightarrow> False)
   \<and> fst (load_config 3 (example_repo example_no_rpms_source) example_url
            (Some example_config)) = Raise KeyError"
  by code_simp

text \<open>
  C3: a document without a required key must not load. The code accepts the example
  document without \<^verbatim>\<open>trigger.rpms\<close>: the load succeeds, the global configuration is
  replaced, and the new configuration has no \<^verbatim>\<open>trigger.rpms\<close>.
\<close>

theorem load_config_accepts_missing_trigger_rpms:
  "(case load_config 3 (example_repo example_no_trigger_rpms) example_url None of
      (Value n, c') \<Rightarrow> c' = Some n \<and> trigger_rpms (main_trigger (c_main n)) = None
    | _ \<Rightarrow> False)"
  by code_simp

section \<open>What a function may do to the world\<close>

text \<open>
  \<open>only P m\<close>: whatever the state and the answers of the world, running \<open>m\<close> appends
  events to the trace, and every event it appends satisfies \<open>P\<close>.
\<close>

definition only :: "(event \<Rightarrow> bool) \<Rightarrow> 'a prog \<Rightarrow> bool" where
  "only P m \<longleftrightarrow> (\<forall>s. \<exists>new. trace (snd (m s)) = trace s @ new \<and> list_all P new)"

lemma onlyD: "only P m \<Longrightarrow> m s = (r, s') \<Longrightarrow> \<exists>new. trace s' = trace s @ new \<and> list_all P new"
  by (auto simp: only_def dest!: spec [of _ s])

lemma only_pret: "only P (pret x)"
  by (simp add: only_def pret_def)

lemma only_plift: "only P (plift r)"
  by (simp add: only_def plift_def)

lemma only_pbind:
  assumes m: "only P m" and f: "\<And>x. only P (f x)"
  shows "only P (pbind m f)"
  unfolding only_def
proof
  fix s
  obtain r s1 where ms: "m s = (r, s1)" by (cases "m s")
  from onlyD [OF m ms] obtain n1 where n1: "trace s1 = trace s @ n1" "list_all P n1" by blast
  show "\<exists>new. trace (snd (pbind m f s)) = trace s @ new \<and> list_all P new"
  proof (cases r)
    case (Inl e)
    with ms n1 show ?thesis by (auto simp: pbind_def)
  next
    case (Inr x)
    obtain r2 s2 where fs: "f x s1 = (r2, s2)" by (cases "f x s1")
    from onlyD [OF f fs] obtain n2 where n2: "trace s2 = trace s1 @ n2" "list_all P n2" by blast
    from ms Inr fs n1 n2 have "trace (snd (pbind m f s)) = trace s @ (n1 @ n2)" "list_all P (n1 @ n2)"
      by (simp_all add: pbind_def)
    then show ?thesis by blast
  qed
qed

lemma only_pcatch: "only P m \<Longrightarrow> only P (pcatch m)"
  unfolding only_def
proof
  fix s
  assume a: "\<forall>s. \<exists>new. trace (snd (m s)) = trace s @ new \<and> list_all P new"
  then obtain new where "trace (snd (m s)) = trace s @ new \<and> list_all P new" by blast
  moreover have "snd (pcatch m s) = snd (m s)"
    by (simp add: pcatch_def split: prod.splits sum.splits)
  ultimately show "\<exists>new. trace (snd (pcatch m s)) = trace s @ new \<and> list_all P new"
    by auto
qed

lemma only_call:
  "P e \<Longrightarrow> only P (call_unit w e)"
  "P e \<Longrightarrow> only P (call_str w e)"
  "P e \<Longrightarrow> only P (call_val w e)"
  "P e \<Longrightarrow> only P (call_file w e)"
  "P e \<Longrightarrow> only P (call_http w e)"
  "P Now \<Longrightarrow> only P (call_time w)"
  by (simp_all add: only_def call_unit_def call_str_def call_val_def call_file_def
      call_http_def call_time_def emit_def)

lemma only_session: "only P (get_session which)" "only P (set_session which t)"
  by (simp_all add: only_def get_session_def set_session_def)

lemma only_retry_loop: "only P m \<Longrightarrow> only P (retry_loop n m)"
  by (induction n) (auto intro!: only_pret only_pbind only_pcatch split: option.splits)

lemma only_git: "P (Git repo cmd args) \<Longrightarrow> only P (git w repo cmd args)"
  by (simp add: git_def only_call)

lemma only_if: "(b \<Longrightarrow> only P m) \<Longrightarrow> (\<not> b \<Longrightarrow> only P n) \<Longrightarrow> only P (if b then m else n)"
  by simp

lemma only_mono: "only P m \<Longrightarrow> (\<And>e. P e \<Longrightarrow> Q e) \<Longrightarrow> only Q m"
  unfolding only_def by (meson list_all_iff list.pred_mono_strong)

lemmas only_intros = only_if only_pret only_plift only_pbind only_pcatch only_call only_session
  only_retry_loop only_git


fun is_dry_push :: "event \<Rightarrow> bool" where
  "is_dry_push (Git d cmd args) = (cmd = ''push'' \<and> Some ''--dry-run'' \<in> set args)"
| "is_dry_push _ = False"

fun is_upload :: "event \<Rightarrow> bool" where
  "is_upload (CacheUpload ca n p h t) = True"
| "is_upload _ = False"


definition no_upload :: "event \<Rightarrow> bool" where
  "no_upload e \<longleftrightarrow> \<not> is_upload e"


















section \<open>An example world\<close>

text \<open>
  A world in which every call succeeds: temporary directories and message files get names
  under \<^verbatim>\<open>/tmp\<close>, the random branch name is not taken, no cache has any file, the sources
  file appears with the first commit, and the build system gives task 4242. The globals
  hold the example configuration, with three attempts.
\<close>

fun is_commit :: "event \<Rightarrow> bool" where
  "is_commit (Git d cmd args) = (cmd = ''commit'')"
| "is_commit _ = False"

definition example_entries_order :: "source_entry set \<Rightarrow> source_entry list" where
  "example_entries_order x =
     filter (\<lambda>e. e \<in> x)
       [(''foo.tar.gz'', example_md5, ''md5''), (''bar.tar.xz'', example_sha512, ''sha512'')]"

definition example_world :: world where
  "example_world =
     \<lparr> ask_unit = (\<lambda>tr e. True),
       ask_str = (\<lambda>tr e.
         case e of
           MkTemp p \<Rightarrow> Some (''/tmp/'' @ p @ ''k3x9'')
         | RandomName \<Rightarrow> Some ''qWeRtYuIoPaSdFgH''
         | MsgFile p m \<Rightarrow> Some (''/tmp/'' @ p @ ''m1'')
         | Git d cmd args \<Rightarrow>
             if cmd = ''rev_parse''
                \<and> args = [Some ''--quiet'', Some ''qWeRtYuIoPaSdFgH'', Some ''--'']
             then None else Some ''0a1b2c3''
         | _ \<Rightarrow> None),
       ask_val = (\<lambda>tr e.
         case e of
           CacheExists ca n f h t \<Rightarrow> Some (PBool False)
         | KojiBuild session u t sc \<Rightarrow> Some (PInt 4242)
         | _ \<Rightarrow> None),
       ask_file = (\<lambda>tr e. if list_ex is_commit tr then Content example_sources else NoFile),
       ask_http = (\<lambda>tr e. None),
       ask_time = (\<lambda>tr. 0),
       iter_order = example_entries_order,
       read_packager_string = (\<lambda>t.
         if t = ''two packages'' then
           Some (ModuleStreamV2
             [(''componentrpm'', \<lparr> rc_repository = Some ''https://src.example.org/rpms/componentrpm'',
                                  rc_cache = Some ''https://src.example.org/repo/pkgs'',
                                  rc_ref = Some ''stream-1'' \<rparr>),
              (''otherrpm'', \<lparr> rc_repository = Some ''https://src.example.org/rpms/otherrpm'',
                              rc_cache = None, rc_ref = None \<rparr>)] [])
         else if t = ''package and module'' then
           Some (ModuleStreamV2
             [(''otherrpm'', \<lparr> rc_repository = Some ''https://src.example.org/rpms/otherrpm'',
                              rc_cache = None, rc_ref = None \<rparr>)] [''bundled''])
         else Some OtherDocument) \<rparr>"

definition example_globals :: "bool \<Rightarrow> globals" where
  "example_globals dry = \<lparr> g_config = Some example_config, g_retry = 3, g_dry_run = dry \<rparr>"

definition example_state :: state where
  "example_state = \<lparr> trace = [], sessions = Map.empty \<rparr>"

section \<open>Properties of the loaded configuration\<close>

lemma obind_Value: "obind m f = Value v \<longleftrightarrow> (\<exists>x. m = Value x \<and> f x = Value v)"
  by (cases m) auto

lemma load_mbs_keys:
  assumes "load_mbs importable mbs = Value x"
  shows "\<exists>a u. map_of x ''auth_method'' = Some a \<and> map_of x ''api_url'' = Some u"
  using assms
  by (auto simp: load_mbs_def obind_Value Let_def split: if_splits)

lemma load_endpoint_mbs:
  assumes "load_endpoint importable ''destination'' cnf = Value dst"
  shows "\<exists>x a u. ep_mbs dst = Some x \<and> map_of x ''auth_method'' = Some a
           \<and> map_of x ''api_url'' = Some u"
proof -
  from assms obtain m x where "load_mbs importable m = Value x" and "ep_mbs dst = Some x"
    by (auto simp: load_endpoint_def obind_Value split: option.splits if_splits)
  with load_mbs_keys show ?thesis by blast
qed

lemma build_config_mbs:
  assumes "build_config importable y = Value c"
  shows "\<exists>x a u. ep_mbs (main_destination (c_main c)) = Some x
           \<and> map_of x ''auth_method'' = Some a \<and> map_of x ''api_url'' = Some u"
proof -
  from assms obtain n where n: "load_main importable y = Value n" and c: "c_main c = n"
    by (auto simp: build_config_def obind_Value)
  from n obtain cnf dst where "load_endpoint importable ''destination'' cnf = Value dst"
    and "main_destination n = dst"
    by (auto simp: load_main_def obind_Value)
  with load_endpoint_mbs c show ?thesis by blast
qed

lemma split_scmurl_comp: "\<exists>x. scm_comp (split_scmurl u) = Some x"
  by (simp add: split_scmurl_def Let_def py_split_nonempty)

section \<open>Excluded components\<close>

text \<open>
  C4: a component that is in \<^verbatim>\<open>control.exclude[ns]\<close> is refused by \<open>sync_repo\<close>, by
  \<open>sync_cache\<close> and by \<open>build_comp\<close> before anything else happens: each returns \<^verbatim>\<open>None\<close> and
  leaves the state as it was, so the trace gets no event (no clone, no upload, no build
  submission), whatever the other arguments and the world are.
\<close>

theorem excluded_component_refused:
  assumes "g_config g = Some c" and "exclude_of c ns = Inr x" and "PStr compn \<in> x"
  shows "sync_repo w g compn ns nvr gitdir cmodule scmurl bcache s = (Inr None, s)
       \<and> sync_cache w g compn sources ns scacheurl s = (Inr None, s)
       \<and> build_comp w g compn rf ns s = (Inr None, s)"
  using assms
  by (simp add: sync_repo_def sync_repo_with_def sync_cache_def build_comp_def excluded_def
      ebind_def pbind_def plift_def pret_def)

theorem excluded_component_refused_witness:
  "sync_repo example_world (example_globals False) ''firefox'' ''rpms'' None None None None None
      example_state = (Inr None, example_state)
   \<and> sync_cache example_world (example_globals False) ''firefox''
        [(''firefox.tar.xz'', example_sha512, ''sha512'')] ''rpms'' None example_state
      = (Inr None, example_state)
   \<and> build_comp example_world (example_globals False) ''firefox'' (Some ''0a1b2c3'') ''rpms''
        example_state = (Inr None, example_state)"
proof -
  have c: "g_config (example_globals False) = Some example_config"
    by (simp add: example_globals_def)
  have x: "exclude_of example_config ''rpms'' = Inr {PStr ''firefox'', PStr ''kernel''}"
    by (simp add: exclude_of_def example_config_def)
  have m: "PStr ''firefox'' \<in> {PStr ''firefox'', PStr ''kernel''}"
    by simp
  from excluded_component_refused [OF c x m] show ?thesis by blast
qed

section \<open>The dry-run mode\<close>

lemma dry_repo_push: "g_dry_run g \<Longrightarrow> only is_dry_push (repo_push w g repo dscm)"
  unfolding repo_push_def
  by (auto intro!: only_intros)

lemma dry_sync_attempt: "g_dry_run g \<Longrightarrow> only no_upload (sync_attempt w g c ns sc dc td s)"
  unfolding sync_attempt_def Let_def
  by (auto intro!: only_intros simp: no_upload_def)

lemma dry_sync_sources: "g_dry_run g \<Longrightarrow> only no_upload (sync_sources w g c ns sc dc td ss)"
  by (induction ss) (auto intro!: only_intros dry_sync_attempt split: option.splits)

lemma dry_sync_cache: "g_dry_run g \<Longrightarrow> only no_upload (sync_cache w g compn ss ns su)"
  unfolding sync_cache_def
  by (auto intro!: only_intros dry_sync_sources simp: no_upload_def split: option.splits)

lemma build_comp_dry_state:
  assumes "g_dry_run g"
  shows "snd (build_comp w g compn rf ns s) = s"
  using assms
  unfolding build_comp_def Let_def
  by (auto simp: pbind_def plift_def pret_def split: option.splits sum.splits prod.splits)

lemma build_comp_dry_zero:
  assumes d: "g_dry_run g" and c: "g_config g = Some c"
    and l: "build_config importable y = Value c"
    and ns: "ns = ''rpms'' \<or> ns = ''modules''"
    and ex: "excluded c ns compn = Inr False"
    and b: "control_build (main_control (c_main c))"
  shows "fst (build_comp w g compn rf ns s) = Inr (Some (PInt 0))"
proof -
  from build_config_mbs [OF l] obtain x a u where
    m: "ep_mbs (main_destination (c_main c)) = Some x" "map_of x ''auth_method'' = Some a"
       "map_of x ''api_url'' = Some u" by blast
  obtain comps where co: "comps_of c ns = Inr comps"
    using ns by (auto simp: comps_of_def)
  have bc: "\<exists>b. (case map_of comps compn of
                    Some cc \<Rightarrow> scm_comp (split_scmurl (comp_destination cc))
                  | None \<Rightarrow> Some compn) = Some b"
    using split_scmurl_comp by (auto split: option.splits)
  then obtain bcomp where bcomp: "(case map_of comps compn of
                    Some cc \<Rightarrow> scm_comp (split_scmurl (comp_destination cc))
                  | None \<Rightarrow> Some compn) = Some bcomp" by blast
  show ?thesis
    using ns d c ex b co bcomp m
    unfolding build_comp_def Let_def
    by (auto simp: pbind_def plift_def pret_def mbs_item_def required_def ebind_def)
qed

text \<open>
  C1, as stated, fails: in the dry-run mode \<open>build_comp\<close> does not return task id 0 for
  every component. For an excluded component it returns \<^verbatim>\<open>None\<close>.
\<close>

theorem dry_run_build_comp_counterexample:
  "g_dry_run (example_globals True)
   \<and> fst (build_comp example_world (example_globals True) ''firefox'' (Some ''0a1b2c3'') ''rpms''
           example_state) = Inr None"
  by code_simp

text \<open>
  C1, amended: whenever \<^verbatim>\<open>dry_run\<close> is set, for every component and namespace, every push
  that \<open>repo_push\<close> makes has the option \<^verbatim>\<open>--dry-run\<close>, \<open>sync_cache\<close> makes no upload, and
  \<open>build_comp\<close> leaves the state as it was (no call to a build system, no session).
  \<open>build_comp\<close> returns \<^verbatim>\<open>None\<close> when no configuration is loaded, when the component is in
  \<^verbatim>\<open>control.exclude[ns]\<close>, and when the component is not excluded but \<^verbatim>\<open>control.build\<close> is
  false. It returns task id 0 in the namespaces \<^verbatim>\<open>rpms\<close> and \<^verbatim>\<open>modules\<close> when the configuration
  is one that \<open>load_config\<close> built, the component is not excluded and \<^verbatim>\<open>control.build\<close> is
  true.
\<close>

theorem dry_run_suppresses_effects:
  assumes "g_dry_run g"
  shows "only is_dry_push (repo_push w g repo dscm)
       \<and> only no_upload (sync_cache w g compn sources ns scacheurl)
       \<and> snd (build_comp w g compn rf ns s) = s
       \<and> (g_config g = None \<longrightarrow> fst (build_comp w g compn rf ns s) = Inr None)
       \<and> (g_config g = Some c \<and> excluded c ns compn = Inr True
          \<longrightarrow> fst (build_comp w g compn rf ns s) = Inr None)
       \<and> (g_config g = Some c \<and> excluded c ns compn = Inr False
            \<and> \<not> control_build (main_control (c_main c))
          \<longrightarrow> fst (build_comp w g compn rf ns s) = Inr None)
       \<and> (g_config g = Some c \<and> build_config importable y = Value c
            \<and> (ns = ''rpms'' \<or> ns = ''modules'') \<and> excluded c ns compn = Inr False
            \<and> control_build (main_control (c_main c))
          \<longrightarrow> fst (build_comp w g compn rf ns s) = Inr (Some (PInt 0)))"
proof (intro conjI impI)
  show "only is_dry_push (repo_push w g repo dscm)"
    by (rule dry_repo_push [OF assms])
  show "only no_upload (sync_cache w g compn sources ns scacheurl)"
    by (rule dry_sync_cache [OF assms])
  show "snd (build_comp w g compn rf ns s) = s"
    by (rule build_comp_dry_state [OF assms])
next
  assume "g_config g = None"
  then show "fst (build_comp w g compn rf ns s) = Inr None"
    by (simp add: build_comp_def pret_def)
next
  assume "g_config g = Some c \<and> excluded c ns compn = Inr True"
  then show "fst (build_comp w g compn rf ns s) = Inr None"
    by (simp add: build_comp_def pbind_def plift_def pret_def)
next
  assume "g_config g = Some c \<and> excluded c ns compn = Inr False
      \<and> \<not> control_build (main_control (c_main c))"
  then show "fst (build_comp w g compn rf ns s) = Inr None"
    by (simp add: build_comp_def pbind_def plift_def pret_def)
next
  assume a: "g_config g = Some c \<and> build_config importable y = Value c
      \<and> (ns = ''rpms'' \<or> ns = ''modules'') \<and> excluded c ns compn = Inr False
      \<and> control_build (main_control (c_main c))"
  then have c: "g_config g = Some c" and l: "build_config importable y = Value c"
    and n: "ns = ''rpms'' \<or> ns = ''modules''" and x: "excluded c ns compn = Inr False"
    and b: "control_build (main_control (c_main c))"
    by simp_all
  show "fst (build_comp w g compn rf ns s) = Inr (Some (PInt 0))"
    by (rule build_comp_dry_zero [OF assms c l n x b])
qed

theorem dry_run_suppresses_effects_witness:
  "only is_dry_push (repo_push example_world (example_globals True) ''/tmp/repo-rpms-bash-k3x9''
       (split_scmurl ''ssh://pkgs.example.com/rpms/bash.git#fluff''))
   \<and> only no_upload (sync_cache example_world (example_globals True) ''bash''
       [(''bash.tar.gz'', example_sha512, ''sha512'')] ''rpms'' None)
   \<and> build_comp example_world (example_globals True) ''bash'' (Some ''0a1b2c3'') ''rpms''
        example_state = (Inr (Some (PInt 0)), example_state)
   \<and> build_comp example_world (example_globals True) ''kernel'' (Some ''0a1b2c3'') ''rpms''
        example_state = (Inr None, example_state)"
proof -
  have d: "g_dry_run (example_globals True)"
    and c: "g_config (example_globals True) = Some example_config"
    by (simp_all add: example_globals_def)
  have x: "excluded example_config ''rpms'' ''bash'' = Inr False"
    and k: "excluded example_config ''rpms'' ''kernel'' = Inr True"
    by (simp_all add: excluded_def exclude_of_def ebind_def example_config_def)
  have b: "control_build (main_control (c_main example_config))"
    by (simp add: example_config_def)
  from dry_run_suppresses_effects [OF d, of example_world "''/tmp/repo-rpms-bash-k3x9''"
      "split_scmurl ''ssh://pkgs.example.com/rpms/bash.git#fluff''" "''bash''"
      "[(''bash.tar.gz'', example_sha512, ''sha512'')]" "''rpms''" None "Some ''0a1b2c3''"
      example_state example_config "\<lambda>m. True"
      "example_document example_trigger example_defaults"]
    c x b example_build_config
  have 1: "only is_dry_push (repo_push example_world (example_globals True)
        ''/tmp/repo-rpms-bash-k3x9'' (split_scmurl ''ssh://pkgs.example.com/rpms/bash.git#fluff''))
    \<and> only no_upload (sync_cache example_world (example_globals True) ''bash''
        [(''bash.tar.gz'', example_sha512, ''sha512'')] ''rpms'' None)
    \<and> build_comp example_world (example_globals True) ''bash'' (Some ''0a1b2c3'') ''rpms''
        example_state = (Inr (Some (PInt 0)), example_state)"
    by (simp add: prod_eq_iff)
  from dry_run_suppresses_effects [OF d, of example_world "''/tmp/repo-rpms-kernel-k3x9''"
      "split_scmurl ''ssh://pkgs.example.com/rpms/kernel.git#fluff''" "''kernel''"
      "[]" "''rpms''" None "Some ''0a1b2c3''"
      example_state example_config "\<lambda>m. True"
      "example_document example_trigger example_defaults"]
    c k
  have 2: "build_comp example_world (example_globals True) ''kernel'' (Some ''0a1b2c3'') ''rpms''
        example_state = (Inr None, example_state)"
    by (simp add: prod_eq_iff)
  from 1 2 show ?thesis by simp
qed

section \<open>The names in the lookaside caches\<close>

text \<open>
  C5: for a component without an entry of its own, the blobs must be uploaded under the
  name that the template \<^verbatim>\<open>defaults.cache.destination\<close> gives. With the example
  configuration, whose template is \<^verbatim>\<open>fluff-%(component)s\<close>, the component \<^verbatim>\<open>bash\<close> is
  uploaded under \<^verbatim>\<open>rpms/bash\<close>, the name of the source template, and not under
  \<^verbatim>\<open>rpms/fluff-bash\<close>.
\<close>

theorem sync_cache_uploads_under_source_name:
  "filter is_upload (trace (snd (sync_cache example_world (example_globals False) ''bash''
       [(''bash.tar.gz'', example_sha512, ''sha512'')] ''rpms'' None example_state)))
     = [CacheUpload (ep_cache (main_destination (c_main example_config))) ''rpms/bash''
          ''/tmp/cache-rpms-bash-k3x9/bash.tar.gz'' example_sha512 ''sha512'']
   \<and> map_of (c_comps_rpms example_config) ''bash'' = None
   \<and> sd_destination (defaults_cache (main_defaults (c_main example_config)))
       = Some ''fluff-%(component)s''
   \<and> py_format ''fluff-%(component)s'' [(''component'', ''bash'')] = Inr ''fluff-bash''"
  by code_simp

section \<open>The latest module builds\<close>

text \<open>
  The builds met by the loop, in the words of the specification: going through the tagged
  builds in the order given, every build whose module name and stream are resolved gives
  an entry, its \<^verbatim>\<open>name:stream\<close> with its NVR, and every other build gives none.
\<close>

fun spec_tagged_entries ::
  "world \<Rightarrow> globals \<Rightarrow> pyval list \<Rightarrow> (string \<times> pyval) list prog" where
  "spec_tagged_entries w g [] = pret []"
| "spec_tagged_entries w g (x # xs) =
     pbind (plift (py_getitem x ''nvr'')) (\<lambda>nvr.
     pbind (get_build_info w g nvr) (\<lambda>binfo.
     pbind (spec_tagged_entries w g xs) (\<lambda>es.
       pret ((case binfo of
                None \<Rightarrow> []
              | Some bi \<Rightarrow>
                  if bi_name bi = PNone \<or> bi_stream bi = PNone then []
                  else [(py_str (bi_name bi) @ '':'' @ py_str (bi_stream bi), nvr)]) @ es))))"

definition spec_last_entry :: "(string \<times> pyval) list \<Rightarrow> string \<Rightarrow> pyval option" where
  "spec_last_entry es k =
     (case filter (\<lambda>e. fst e = k) es of [] \<Rightarrow> None | e # r \<Rightarrow> Some (snd (last (e # r))))"

lemma map_of_rev_last: "map_of (rev es) k = spec_last_entry es k"
proof (induction es rule: rev_induct)
  case Nil
  then show ?case by (simp add: spec_last_entry_def)
next
  case (snoc e es)
  then show ?case
    by (cases e) (auto simp: spec_last_entry_def split: list.splits)
qed

lemma latest_loop_entries:
  "latest_loop w g xs m s =
     (case spec_tagged_entries w g xs s of
        (Inl e, s') \<Rightarrow> (Inl e, s')
      | (Inr es, s') \<Rightarrow> (Inr (m ++ map_of (rev es)), s'))"
proof (induction xs arbitrary: m s)
  case Nil
  then show ?case by (simp add: pret_def)
next
  case (Cons x xs)
  show ?case
  proof (cases "py_getitem x ''nvr''")
    case (Inl e)
    then show ?thesis by (simp add: pbind_def plift_def)
  next
    case (Inr nvr)
    obtain r1 s1 where gi: "get_build_info w g nvr s = (r1, s1)"
      by (cases "get_build_info w g nvr s")
    show ?thesis
    proof (cases r1)
      case (Inl e)
      with Inr gi show ?thesis by (simp add: pbind_def plift_def)
    next
      case r1: (Inr binfo)
      obtain r2 s2 where te: "spec_tagged_entries w g xs s1 = (r2, s2)"
        by (cases "spec_tagged_entries w g xs s1")
      show ?thesis
      proof (cases r2)
        case (Inl e)
        with Inr gi r1 te Cons.IH [of _ s1] show ?thesis
          by (auto simp: pbind_def plift_def pret_def split: option.splits)
      next
        case r2: (Inr es)
        with Inr gi r1 te Cons.IH [of _ s1] show ?thesis
          by (auto simp: pbind_def plift_def pret_def map_add_upd_left map_add_def
              split: option.splits intro!: ext)
      qed
    qed
  qed
qed

text \<open>
  C8: when the loop over the tagged builds ends, its map from \<^verbatim>\<open>name:stream\<close> to NVR holds,
  for every key, the NVR of the last build met for that key, and no entry for a key that
  no resolved build has.
\<close>

theorem latest_loop_last_wins:
  assumes "latest_loop w g xs Map.empty s = (Inr latest, s')"
  shows "\<exists>es. spec_tagged_entries w g xs s = (Inr es, s')
           \<and> (\<forall>k. latest k = spec_last_entry es k)"
proof -
  obtain r1 s1 where te: "spec_tagged_entries w g xs s = (r1, s1)"
    by (cases "spec_tagged_entries w g xs s")
  with assms latest_loop_entries [of w g xs Map.empty s]
  obtain es where "r1 = Inr es" "s1 = s'" "latest = map_of (rev es)"
    by (cases r1) auto
  with te map_of_rev_last show ?thesis by auto
qed

text \<open>A world for the loop: two builds of \<^verbatim>\<open>A:1\<close>, one of \<^verbatim>\<open>B:2\<close> and a build that is no module.\<close>

definition example_module_build :: "string \<Rightarrow> string \<Rightarrow> pyval" where
  "example_module_build n st =
     PDict [(''source'', PStr (''https://src.example.org/modules/'' @ n @ ''?#0a1b2c3'')),
            (''extra'', PDict [(''typeinfo'', PDict [(''module'',
               PDict [(''name'', PStr n), (''stream'', PStr st),
                      (''modulemd_str'', PStr ''two packages'')])])])]"

definition example_koji :: world where
  "example_koji =
     example_world \<lparr> ask_val := (\<lambda>tr e.
       case e of
         KojiGetBuild session nvr \<Rightarrow>
           if nvr = PStr ''A-1-1'' \<or> nvr = PStr ''A-1-2'' then Some (example_module_build ''A'' ''1'')
           else if nvr = PStr ''B-2-1'' then Some (example_module_build ''B'' ''2'')
           else if nvr = PStr ''plain-1-1''
           then Some (PDict [(''source'', PStr ''https://src.example.org/rpms/plain#0a1b2c3'')])
           else None
       | _ \<Rightarrow> None) \<rparr>"

definition example_tagged :: "pyval list" where
  "example_tagged =
     [PDict [(''nvr'', PStr ''A-1-1'')], PDict [(''nvr'', PStr ''B-2-1'')],
      PDict [(''nvr'', PStr ''plain-1-1'')], PDict [(''nvr'', PStr ''A-1-2'')]]"

lemma example_latest:
  "(case latest_loop example_koji (example_globals False) example_tagged Map.empty example_state of
      (Inr m, s) \<Rightarrow> m ''A:1'' = Some (PStr ''A-1-2'') \<and> m ''B:2'' = Some (PStr ''B-2-1'')
                     \<and> m ''plain'' = None
    | (Inl e, s) \<Rightarrow> False)"
  by code_simp

theorem latest_loop_last_wins_witness:
  "\<exists>latest s'.
     latest_loop example_koji (example_globals False) example_tagged Map.empty example_state
       = (Inr latest, s')
     \<and> latest ''A:1'' = Some (PStr ''A-1-2'') \<and> latest ''B:2'' = Some (PStr ''B-2-1'')
     \<and> latest ''plain'' = None
     \<and> (\<exists>es. spec_tagged_entries example_koji (example_globals False) example_tagged
                example_state = (Inr es, s')
           \<and> (\<forall>k. latest k = spec_last_entry es k))"
proof -
  obtain r s' where run: "latest_loop example_koji (example_globals False) example_tagged
      Map.empty example_state = (r, s')"
    by (cases "latest_loop example_koji (example_globals False) example_tagged Map.empty
      example_state")
  with example_latest obtain latest where r: "r = Inr latest"
    and v: "latest ''A:1'' = Some (PStr ''A-1-2'')" "latest ''B:2'' = Some (PStr ''B-2-1'')"
      "latest ''plain'' = None"
    by (cases r) auto
  from latest_loop_last_wins [OF run [unfolded r]] run r v show ?thesis
    by blast
qed

section \<open>The module expander\<close>


















end
